theory Spec2Isabelle
  imports Main "HOL-Library.Word"
begin

section \<open>Python values\<close>

text \<open>
  The program (\<^verbatim>\<open>src/Astro/Weather_Station.py\<close>) passes the values it reads from JSON
  through untouched: the dataclass \<^verbatim>\<open>WeatherData\<close> does not check its field types, so a
  field holds whatever \<^verbatim>\<open>dict.get\<close> returned. A value is therefore any decoded JSON
  value. A float is kept as its IEEE-754 bit pattern: the program never computes with it,
  it only tests it for truth (\<^verbatim>\<open>if not raw_data\<close>), and \<^verbatim>\<open>0.0\<close> and \<^verbatim>\<open>-0.0\<close> are the two
  false floats. A dict is an association list looked up with \<^const>\<open>map_of\<close>.
\<close>

datatype pyval =
    PNone
  | PBool bool
  | PInt int
  | PFloat "64 word"
  | PStr string
  | PList "pyval list"
  | PDict "(string \<times> pyval) list"

text \<open>Python truth value testing (\<^verbatim>\<open>if not x\<close>).\<close>

fun truthy :: "pyval \<Rightarrow> bool" where
  "truthy PNone = False"
| "truthy (PBool b) = b"
| "truthy (PInt i) = (i \<noteq> 0)"
| "truthy (PFloat w) = (w \<noteq> 0 \<and> w \<noteq> 0x8000000000000000)"
| "truthy (PStr s) = (s \<noteq> [])"
| "truthy (PList xs) = (xs \<noteq> [])"
| "truthy (PDict kvs) = (kvs \<noteq> [])"

text \<open>
  The exceptions that can occur. The first five are subclasses of
  \<^verbatim>\<open>requests.exceptions.RequestException\<close>; \<^verbatim>\<open>response.json()\<close> raises
  \<^verbatim>\<open>RequestsJSONDecodeError\<close> in requests 2.27 and later and a plain \<^verbatim>\<open>ValueError\<close>
  before, so the reply of the network says which one.
\<close>

datatype pyexn =
    ConnectionError
  | Timeout
  | TooManyRedirects
  | HTTPError nat
  | RequestsJSONDecodeError
  | ValueError
  | AttributeError

fun is_RequestException :: "pyexn \<Rightarrow> bool" where
  "is_RequestException ConnectionError = True"
| "is_RequestException Timeout = True"
| "is_RequestException TooManyRedirects = True"
| "is_RequestException (HTTPError c) = True"
| "is_RequestException RequestsJSONDecodeError = True"
| "is_RequestException ValueError = False"
| "is_RequestException AttributeError = False"

text \<open>Sequencing of statements that may raise.\<close>

definition exn_bind :: "pyexn + 'a \<Rightarrow> ('a \<Rightarrow> pyexn + 'b) \<Rightarrow> pyexn + 'b" where
  "exn_bind m f = (case m of Inl e \<Rightarrow> Inl e | Inr x \<Rightarrow> f x)"

text \<open>
  \<^verbatim>\<open>obj.get(key, dflt)\<close>: only a dict has the method; on any other value the attribute
  lookup raises \<^verbatim>\<open>AttributeError\<close>.
\<close>

definition dict_get :: "pyval \<Rightarrow> string \<Rightarrow> pyval \<Rightarrow> pyexn + pyval" where
  "dict_get obj key dflt =
     (case obj of
        PDict kvs \<Rightarrow> Inr (case map_of kvs key of Some v \<Rightarrow> v | None \<Rightarrow> dflt)
      | _ \<Rightarrow> Inl AttributeError)"

text \<open>\<^verbatim>\<open>obj.get(k1, {}).get(k2)\<close> and \<^verbatim>\<open>obj.get(k1, {}).get(k2, dflt)\<close>.\<close>

definition nested_get :: "pyval \<Rightarrow> string \<Rightarrow> string \<Rightarrow> pyval \<Rightarrow> pyexn + pyval" where
  "nested_get obj k1 k2 dflt = exn_bind (dict_get obj k1 (PDict [])) (\<lambda>block. dict_get block k2 dflt)"

section \<open>Strings\<close>

definition digit :: "nat \<Rightarrow> char" where
  "digit n = char_of (48 + n mod 10)"

text \<open>\<^verbatim>\<open>str(n)\<close> of a non-negative integer, as an f-string renders it.\<close>

fun decimal :: "nat \<Rightarrow> string" where
  "decimal n = (if n < 10 then [digit n] else decimal (n div 10) @ [digit n])"

definition pad2 :: "nat \<Rightarrow> string" where
  "pad2 n = [digit (n div 10), digit n]"

definition pad4 :: "nat \<Rightarrow> string" where
  "pad4 n = [digit (n div 1000), digit (n div 100), digit (n div 10), digit n]"

text \<open>Reading a string of decimal digits back (used to state the timestamp format).\<close>

definition digits_value :: "string \<Rightarrow> nat" where
  "digits_value s = foldl (\<lambda>acc c. 10 * acc + (of_char c - 48)) 0 s"

definition is_digit :: "char \<Rightarrow> bool" where
  "is_digit c = (48 \<le> (of_char c :: nat) \<and> (of_char c :: nat) \<le> 57)"

text \<open>
  \<^verbatim>\<open>str.lower()\<close>. A character is a code unit; the letters A to Z are the only ones
  whose lower case is a letter of the word \<^verbatim>\<open>success\<close>.
\<close>

definition lower_char :: "char \<Rightarrow> char" where
  "lower_char c = (if 65 \<le> (of_char c :: nat) \<and> (of_char c :: nat) \<le> 90
                   then char_of ((of_char c :: nat) + 32) else c)"

definition lower :: "string \<Rightarrow> string" where
  "lower s = map lower_char s"

text \<open>\<^verbatim>\<open>needle in haystack\<close> on strings.\<close>

definition starts_with :: "string \<Rightarrow> string \<Rightarrow> bool" where
  "starts_with needle hay = (take (length needle) hay = needle)"

fun contains :: "string \<Rightarrow> string \<Rightarrow> bool" where
  "contains needle [] = (needle = [])"
| "contains needle (c # cs) = (starts_with needle (c # cs) \<or> contains needle cs)"

section \<open>Data model\<close>

text \<open>
  A naive \<^verbatim>\<open>datetime\<close>: its civil fields. \<^verbatim>\<open>strftime('%Y-%m-%d %H:%M:%S')\<close> pads every
  field with zeros; for years below 1000 the padding of \<^verbatim>\<open>%Y\<close> depends on the C library,
  and the theorems about the format are stated for years 1000 to 9999.
\<close>

record datetime =
  year :: nat
  month :: nat
  day :: nat
  hour :: nat
  minute :: nat
  second :: nat
  microsecond :: nat

definition valid_datetime :: "datetime \<Rightarrow> bool" where
  "valid_datetime d =
     (1000 \<le> year d \<and> year d \<le> 9999 \<and> 1 \<le> month d \<and> month d \<le> 12 \<and>
      1 \<le> day d \<and> day d \<le> 31 \<and> hour d < 24 \<and> minute d < 60 \<and> second d < 60)"

definition strftime :: "datetime \<Rightarrow> string" where
  "strftime d =
     pad4 (year d) @ ''-'' @ pad2 (month d) @ ''-'' @ pad2 (day d) @ '' '' @
     pad2 (hour d) @ '':'' @ pad2 (minute d) @ '':'' @ pad2 (second d)"

record WeatherData =
  temperature :: pyval
  humidity :: pyval
  pressure :: pyval
  wind_speed :: pyval
  wind_direction :: pyval
  rainfall :: pyval
  cloud_coverage :: pyval
  timestamp :: datetime

section \<open>The outside world: network, clock, log\<close>

text \<open>
  A reply of \<^verbatim>\<open>requests.get\<close> is an exception or a response; a response carries its
  status, its text and what \<^verbatim>\<open>response.json()\<close> gives (a value, or the exception it
  raises on a body that is not JSON).
\<close>

record response =
  status_code :: nat
  body_text :: string
  body_json :: "pyexn + pyval"

text \<open>\<^verbatim>\<open>Response.raise_for_status\<close> of requests raises for the 4xx and 5xx statuses only.\<close>

definition raise_for_status :: "response \<Rightarrow> pyexn + unit" where
  "raise_for_status r =
     (if 400 \<le> status_code r \<and> status_code r < 600 then Inl (HTTPError (status_code r))
      else Inr ())"

datatype level = DEBUG | INFO | WARNING | ERROR

datatype logarg = NoArg | ExnArg pyexn | ValArg pyval | TextArg string | DataArg WeatherData

text \<open>
  What a run does to the outside, in order: a log record (level, the fixed part of the
  message, the interpolated operand), a GET request (URL, query parameters, timeout), a
  reading of the clock (the instant read).
\<close>

datatype event =
    Log level string logarg
  | HttpGet string "(string \<times> pyval) list" nat
  | UtcNow nat

record state =
  clock :: nat
  trace :: "event list"

text \<open>
  The world answers each request, says how long the request takes (time never runs
  backwards) and converts an instant to the UTC civil time \<^verbatim>\<open>datetime.utcnow()\<close> returns.
\<close>

record world =
  respond :: "string \<Rightarrow> (string \<times> pyval) list \<Rightarrow> pyexn + response"
  latency :: "string \<Rightarrow> nat"
  utc_of :: "nat \<Rightarrow> datetime"

definition logger :: "level \<Rightarrow> string \<Rightarrow> logarg \<Rightarrow> state \<Rightarrow> state" where
  "logger lvl msg arg s = s\<lparr>trace := trace s @ [Log lvl msg arg]\<rparr>"

definition requests_get ::
  "world \<Rightarrow> string \<Rightarrow> (string \<times> pyval) list \<Rightarrow> nat \<Rightarrow> state \<Rightarrow> (pyexn + response) \<times> state" where
  "requests_get w url params tmo s =
     (respond w url params,
      s\<lparr>clock := clock s + latency w url, trace := trace s @ [HttpGet url params tmo]\<rparr>)"

definition utcnow :: "world \<Rightarrow> state \<Rightarrow> datetime \<times> state" where
  "utcnow w s = (utc_of w (clock s), s\<lparr>trace := trace s @ [UtcNow (clock s)]\<rparr>)"

section \<open>EcowittWeatherStation\<close>

record EcowittWeatherStation =
  gateway_ip :: string
  gateway_port :: nat
  ews_base_url :: string
  ews_timeout :: nat

definition EcowittWeatherStation_init :: "string \<Rightarrow> nat \<Rightarrow> EcowittWeatherStation" where
  "EcowittWeatherStation_init ip port =
     \<lparr>gateway_ip = ip, gateway_port = port,
      ews_base_url = ''http://'' @ ip @ '':'' @ decimal port, ews_timeout = 10\<rparr>"

definition get_local_data ::
  "world \<Rightarrow> EcowittWeatherStation \<Rightarrow> state \<Rightarrow> (pyexn + pyval) \<times> state" where
  "get_local_data w self s =
     (case requests_get w (ews_base_url self @ ''/get_stations'') [] (ews_timeout self) s of
        (r, s1) \<Rightarrow>
          (case exn_bind r (\<lambda>response.
                  exn_bind (raise_for_status response) (\<lambda>_. body_json response)) of
             Inr data \<Rightarrow>
               (Inr data, logger INFO ''Successfully retrieved data from Ecowitt gateway'' NoArg s1)
           | Inl e \<Rightarrow>
               if is_RequestException e
               then (Inr PNone, logger ERROR ''Failed to retrieve data from Ecowitt: '' (ExnArg e) s1)
               else (Inl e, s1)))"

definition parse_fields :: "pyval \<Rightarrow> pyexn + pyval" where
  "parse_fields raw_data =
     exn_bind (nested_get raw_data ''outdoor'' ''temperature'' PNone) (\<lambda>v_temperature.
     exn_bind (nested_get raw_data ''outdoor'' ''humidity'' PNone) (\<lambda>v_humidity.
     exn_bind (dict_get raw_data ''pressure'' PNone) (\<lambda>v_pressure.
     exn_bind (nested_get raw_data ''wind'' ''windspeed'' PNone) (\<lambda>v_wind_speed.
     exn_bind (nested_get raw_data ''wind'' ''winddir'' PNone) (\<lambda>v_wind_direction.
     exn_bind (nested_get raw_data ''rain'' ''rainevent'' PNone) (\<lambda>v_rainfall.
       Inr (PDict [(''temperature'', v_temperature),
                   (''humidity'', v_humidity),
                   (''pressure'', v_pressure),
                   (''wind_speed'', v_wind_speed),
                   (''wind_direction'', v_wind_direction),
                   (''rainfall'', v_rainfall)])))))))"

text \<open>\<^verbatim>\<open>parse_data\<close>: the dict literal inside \<^verbatim>\<open>try\<close>, \<^verbatim>\<open>except Exception\<close> returning None.\<close>

definition parse_data :: "pyval \<Rightarrow> state \<Rightarrow> pyval \<times> state" where
  "parse_data raw_data s =
     (case parse_fields raw_data of
        Inr parsed \<Rightarrow> (parsed, logger DEBUG ''Parsed Ecowitt data: '' (ValArg parsed) s)
      | Inl e \<Rightarrow> (PNone, logger ERROR ''Error parsing Ecowitt data: '' (ExnArg e) s))"

section \<open>CloudCoverageProvider\<close>

record CloudCoverageProvider =
  api_key :: string
  latitude :: pyval
  longitude :: pyval
  ccp_base_url :: string
  ccp_timeout :: nat

definition CloudCoverageProvider_init :: "string \<Rightarrow> pyval \<Rightarrow> pyval \<Rightarrow> CloudCoverageProvider" where
  "CloudCoverageProvider_init key lat lon =
     \<lparr>api_key = key, latitude = lat, longitude = lon,
      ccp_base_url = ''https://api.openweathermap.org/data/2.5/weather'', ccp_timeout = 10\<rparr>"

definition cloud_params :: "CloudCoverageProvider \<Rightarrow> (string \<times> pyval) list" where
  "cloud_params self =
     [(''lat'', latitude self), (''lon'', longitude self), (''appid'', PStr (api_key self))]"

definition get_cloud_coverage ::
  "world \<Rightarrow> CloudCoverageProvider \<Rightarrow> state \<Rightarrow> (pyexn + pyval) \<times> state" where
  "get_cloud_coverage w self s =
     (case requests_get w (ccp_base_url self) (cloud_params self) (ccp_timeout self) s of
        (r, s1) \<Rightarrow>
          (case exn_bind r (\<lambda>response.
                  exn_bind (raise_for_status response) (\<lambda>_.
                  exn_bind (body_json response) (\<lambda>data.
                    nested_get data ''clouds'' ''all'' (PInt 0)))) of
             Inr cloud_cov \<Rightarrow>
               (Inr cloud_cov, logger INFO ''Cloud coverage: '' (ValArg cloud_cov) s1)
           | Inl e \<Rightarrow>
               if is_RequestException e
               then (Inr PNone, logger ERROR ''Failed to retrieve cloud data: '' (ExnArg e) s1)
               else (Inl e, s1)))"

section \<open>WundergroundUploader\<close>

record WundergroundUploader =
  station_id :: string
  station_key :: string
  upload_url :: string
  wu_timeout :: nat

definition WundergroundUploader_init :: "string \<Rightarrow> string \<Rightarrow> WundergroundUploader" where
  "WundergroundUploader_init sid skey =
     \<lparr>station_id = sid, station_key = skey,
      upload_url = ''https://weatherstation.wunderground.com/weatherstation/updateweatherstation.php'',
      wu_timeout = 10\<rparr>"

definition upload_params :: "WundergroundUploader \<Rightarrow> WeatherData \<Rightarrow> (string \<times> pyval) list" where
  "upload_params self weather_data =
     [(''ID'', PStr (station_id self)),
      (''PASSWORD'', PStr (station_key self)),
      (''dateutc'', PStr (strftime (timestamp weather_data))),
      (''tempf'', temperature weather_data),
      (''humidity'', humidity weather_data),
      (''baromin'', pressure weather_data),
      (''windspeedmph'', wind_speed weather_data),
      (''winddir'', wind_direction weather_data),
      (''rainin'', rainfall weather_data),
      (''clouds'', cloud_coverage weather_data),
      (''action'', PStr ''updateraw''),
      (''realtime'', PInt 1),
      (''rtfreq'', PInt 2880)]"

definition upload_data ::
  "world \<Rightarrow> WundergroundUploader \<Rightarrow> WeatherData \<Rightarrow> state \<Rightarrow> (pyexn + bool) \<times> state" where
  "upload_data w self weather_data s =
     (case requests_get w (upload_url self) (upload_params self weather_data) (wu_timeout self) s of
        (r, s1) \<Rightarrow>
          (case exn_bind r (\<lambda>response.
                  exn_bind (raise_for_status response) (\<lambda>_. Inr response)) of
             Inr response \<Rightarrow>
               if contains ''success'' (lower (body_text response))
               then (Inr True, logger INFO ''Successfully uploaded data to Wunderground'' NoArg s1)
               else (Inr False,
                     logger WARNING ''Wunderground response: '' (TextArg (body_text response)) s1)
           | Inl e \<Rightarrow>
               if is_RequestException e
               then (Inr False, logger ERROR ''Failed to upload to Wunderground: '' (ExnArg e) s1)
               else (Inl e, s1)))"

section \<open>WeatherStationManager\<close>

record WeatherStationManager =
  ecowitt :: EcowittWeatherStation
  cloud_provider :: CloudCoverageProvider
  uploader :: WundergroundUploader

definition WeatherStationManager_init ::
  "string \<Rightarrow> string \<Rightarrow> pyval \<Rightarrow> pyval \<Rightarrow> string \<Rightarrow> string \<Rightarrow> WeatherStationManager" where
  "WeatherStationManager_init ecowitt_ip owm_api_key station_latitude station_longitude
       wunderground_station_id wunderground_api_key =
     \<lparr>ecowitt = EcowittWeatherStation_init ecowitt_ip 8000,
      cloud_provider = CloudCoverageProvider_init owm_api_key station_latitude station_longitude,
      uploader = WundergroundUploader_init wunderground_station_id wunderground_api_key\<rparr>"

text \<open>
  The \<^verbatim>\<open>WeatherData(...)\<close> call of \<^verbatim>\<open>collect_and_upload\<close>: six \<^verbatim>\<open>ecowitt_data.get(key, 0)\<close>,
  the cloud coverage, and the clock read last.
\<close>

definition combine ::
  "world \<Rightarrow> pyval \<Rightarrow> pyval \<Rightarrow> state \<Rightarrow> (pyexn + WeatherData) \<times> state" where
  "combine w ecowitt_data cloud_cov s =
     (case
        exn_bind (dict_get ecowitt_data ''temperature'' (PInt 0)) (\<lambda>v_temperature.
        exn_bind (dict_get ecowitt_data ''humidity'' (PInt 0)) (\<lambda>v_humidity.
        exn_bind (dict_get ecowitt_data ''pressure'' (PInt 0)) (\<lambda>v_pressure.
        exn_bind (dict_get ecowitt_data ''wind_speed'' (PInt 0)) (\<lambda>v_wind_speed.
        exn_bind (dict_get ecowitt_data ''wind_direction'' (PInt 0)) (\<lambda>v_wind_direction.
        exn_bind (dict_get ecowitt_data ''rainfall'' (PInt 0)) (\<lambda>v_rainfall.
          Inr (v_temperature, v_humidity, v_pressure, v_wind_speed, v_wind_direction,
               v_rainfall)))))))
      of
        Inl e \<Rightarrow> (Inl e, s)
      | Inr (v_temperature, v_humidity, v_pressure, v_wind_speed, v_wind_direction, v_rainfall) \<Rightarrow>
          (case utcnow w s of
             (now, s1) \<Rightarrow>
               (Inr \<lparr>temperature = v_temperature, humidity = v_humidity,
                     pressure = v_pressure, wind_speed = v_wind_speed,
                     wind_direction = v_wind_direction, rainfall = v_rainfall,
                     cloud_coverage = cloud_cov, timestamp = now\<rparr>, s1)))"

definition collect_and_upload ::
  "world \<Rightarrow> WeatherStationManager \<Rightarrow> state \<Rightarrow> (pyexn + bool) \<times> state" where
  "collect_and_upload w self s =
     (case get_local_data w (ecowitt self) s of
        (Inl e, s1) \<Rightarrow> (Inl e, s1)
      | (Inr raw_data, s1) \<Rightarrow>
          if \<not> truthy raw_data
          then (Inr False, logger ERROR ''Failed to get Ecowitt data'' NoArg s1)
          else
            (case parse_data raw_data s1 of
               (ecowitt_data, s2) \<Rightarrow>
                 if \<not> truthy ecowitt_data
                 then (Inr False, logger ERROR ''Failed to parse Ecowitt data'' NoArg s2)
                 else
                   (case get_cloud_coverage w (cloud_provider self) s2 of
                      (Inl e, s3) \<Rightarrow> (Inl e, s3)
                    | (Inr cc, s3) \<Rightarrow>
                        (case (if cc = PNone
                               then (PInt 0,
                                     logger WARNING ''Could not get cloud coverage, using 0'' NoArg s3)
                               else (cc, s3)) of
                           (cloud_cov, s4) \<Rightarrow>
                             (case combine w ecowitt_data cloud_cov s4 of
                                (Inl e, s5) \<Rightarrow> (Inl e, s5)
                              | (Inr weather_data, s5) \<Rightarrow>
                                  upload_data w (uploader self) weather_data
                                    (logger INFO ''Combined weather data: ''
                                       (DataArg weather_data) s5))))))"

section \<open>Observing a run\<close>

text \<open>
  What a run added to the trace, the GET requests among some events, the clock readings
  among them, and the \<^verbatim>\<open>WeatherData\<close> objects built (each is logged once, right after its
  construction, by \<^verbatim>\<open>logger.info(f"Combined weather data: {weather_data}")\<close>).
\<close>

definition events_since :: "state \<Rightarrow> state \<Rightarrow> event list" where
  "events_since s s' = drop (length (trace s)) (trace s')"

fun is_request :: "event \<Rightarrow> bool" where
  "is_request (HttpGet url params tmo) = True"
| "is_request (Log lvl msg arg) = False"
| "is_request (UtcNow t) = False"

fun is_clock_read :: "event \<Rightarrow> bool" where
  "is_clock_read (UtcNow t) = True"
| "is_clock_read (HttpGet url params tmo) = False"
| "is_clock_read (Log lvl msg arg) = False"

fun reading_of :: "event \<Rightarrow> WeatherData list" where
  "reading_of (Log lvl msg (DataArg wd)) = [wd]"
| "reading_of (Log lvl msg NoArg) = []"
| "reading_of (Log lvl msg (ExnArg e)) = []"
| "reading_of (Log lvl msg (ValArg v)) = []"
| "reading_of (Log lvl msg (TextArg t)) = []"
| "reading_of (HttpGet url params tmo) = []"
| "reading_of (UtcNow t) = []"

fun request_url :: "event \<Rightarrow> string" where
  "request_url (HttpGet url params tmo) = url"
| "request_url (Log lvl msg arg) = []"
| "request_url (UtcNow t) = []"

definition requests :: "event list \<Rightarrow> event list" where
  "requests evs = filter is_request evs"

definition readings :: "event list \<Rightarrow> WeatherData list" where
  "readings evs = concat (map reading_of evs)"

text \<open>The URL of the gateway request.\<close>

definition gateway_url :: "WeatherStationManager \<Rightarrow> string" where
  "gateway_url self = ews_base_url (ecowitt self) @ ''/get_stations''"

text \<open>Events that are neither a request, nor a clock reading, nor the log of a reading.\<close>

definition only_logs :: "event list \<Rightarrow> bool" where
  "only_logs evs = (requests evs = [] \<and> readings evs = [] \<and> filter is_clock_read evs = [])"

text \<open>
  The shape of a payload that \<^verbatim>\<open>parse_data\<close> accepts: a dict whose \<^verbatim>\<open>outdoor\<close>, \<^verbatim>\<open>wind\<close>
  and \<^verbatim>\<open>rain\<close> entries, where present, are dicts.
\<close>

definition block_ok :: "(string \<times> pyval) list \<Rightarrow> string \<Rightarrow> bool" where
  "block_ok kvs k = (case map_of kvs k of None \<Rightarrow> True | Some (PDict b) \<Rightarrow> True | Some _ \<Rightarrow> False)"

definition well_shaped :: "pyval \<Rightarrow> bool" where
  "well_shaped raw_data =
     (case raw_data of
        PDict kvs \<Rightarrow> block_ok kvs ''outdoor'' \<and> block_ok kvs ''wind'' \<and> block_ok kvs ''rain''
      | _ \<Rightarrow> False)"

text \<open>A reply that is a transport failure: no connection, a timeout, or a 4xx or 5xx status.\<close>

definition transport_failure :: "pyexn + response \<Rightarrow> bool" where
  "transport_failure reply =
     (case reply of
        Inl e \<Rightarrow> e = ConnectionError \<or> e = Timeout
      | Inr resp \<Rightarrow> 400 \<le> status_code resp \<and> status_code resp < 600)"

text \<open>A cloud coverage that is an integer percentage.\<close>

definition in_percent_range :: "pyval \<Rightarrow> bool" where
  "in_percent_range v = (case v of PInt i \<Rightarrow> 0 \<le> i \<and> i \<le> 100 | _ \<Rightarrow> False)"




section \<open>A concrete station and concrete worlds\<close>

text \<open>
  The manager of \<^verbatim>\<open>main()\<close> (gateway 192.168.68.99, the station's coordinates as floats), a
  world given by the three replies of the gateway, the enrichment API and the upload
  target, and the state a run starts from.
\<close>

definition example_manager :: WeatherStationManager where
  "example_manager =
     WeatherStationManager_init ''192.168.68.99'' ''owm-key''
       (PFloat 0x4043BCCE86561FFE) (PFloat 0xC05A443C84427302) ''KCOLITTL1240'' ''wu-key''"

definition example_world ::
  "(pyexn + response) \<Rightarrow> (pyexn + response) \<Rightarrow> (pyexn + response) \<Rightarrow> world" where
  "example_world local cloud upload =
     \<lparr>respond = (\<lambda>url params.
         if url = ''http://192.168.68.99:8000/get_stations'' then local
         else if url = ''https://api.openweathermap.org/data/2.5/weather'' then cloud
         else upload),
      latency = (\<lambda>url. 1),
      utc_of = (\<lambda>t. \<lparr>year = 2024, month = 1, day = 1, hour = 0, minute = 0,
                      second = t mod 60, microsecond = 0\<rparr>)\<rparr>"

definition json_reply :: "nat \<Rightarrow> pyval \<Rightarrow> pyexn + response" where
  "json_reply code v = Inr \<lparr>status_code = code, body_text = [], body_json = Inr v\<rparr>"

definition text_reply :: "nat \<Rightarrow> string \<Rightarrow> pyexn + response" where
  "text_reply code t = Inr \<lparr>status_code = code, body_text = t, body_json = Inl RequestsJSONDecodeError\<rparr>"

definition start :: state where
  "start = \<lparr>clock = 0, trace = []\<rparr>"

text \<open>
  A gateway payload with all six fields (temperature 72.5, humidity 40, pressure 29.92,
  wind speed 5, wind direction 180, rain 0.1; the floats as their bit patterns), and an
  enrichment reply whose \<^verbatim>\<open>clouds.all\<close> is a given integer.
\<close>

definition station_payload :: pyval where
  "station_payload =
     PDict [(''outdoor'', PDict [(''temperature'', PFloat 0x4052200000000000),
                                 (''humidity'', PInt 40)]),
            (''pressure'', PFloat 0x403DEB851EB851EC),
            (''wind'', PDict [(''windspeed'', PInt 5), (''winddir'', PInt 180)]),
            (''rain'', PDict [(''rainevent'', PFloat 0x3FB999999999999A)])]"

definition clouds_reply :: "int \<Rightarrow> pyexn + response" where
  "clouds_reply n = json_reply 200 (PDict [(''clouds'', PDict [(''all'', PInt n)])])"

text \<open>
  The reading of the specification's rendering example: temperature 72.5, humidity 40,
  pressure 29.92, wind speed 5, wind direction 180, rainfall 0.1, cloud coverage 25,
  timestamp 2024-01-01 00:00:00.
\<close>

definition example_reading :: WeatherData where
  "example_reading =
     \<lparr>temperature = PFloat 0x4052200000000000, humidity = PInt 40,
      pressure = PFloat 0x403DEB851EB851EC, wind_speed = PInt 5, wind_direction = PInt 180,
      rainfall = PFloat 0x3FB999999999999A, cloud_coverage = PInt 25,
      timestamp = \<lparr>year = 2024, month = 1, day = 1, hour = 0, minute = 0, second = 0,
                    microsecond = 0\<rparr>\<rparr>"

section \<open>Lemmas about the operations\<close>

lemma requests_append: "requests (xs @ ys) = requests xs @ requests ys"
  by (simp add: requests_def)

lemma readings_append: "readings (xs @ ys) = readings xs @ readings ys"
  by (simp add: readings_def)

lemma only_logs_Nil: "only_logs []"
  by (simp add: only_logs_def requests_def readings_def)

lemma only_logs_quiet:
  "only_logs evs \<Longrightarrow> requests evs = [] \<and> readings evs = [] \<and> filter is_clock_read evs = []"
  by (simp add: only_logs_def)

lemma get_local_data_result_indep:
  "fst (get_local_data w st s) = fst (get_local_data w st s')"
  by (simp add: get_local_data_def requests_get_def exn_bind_def split: sum.splits)

lemma get_cloud_coverage_result_indep:
  "fst (get_cloud_coverage w cp s) = fst (get_cloud_coverage w cp s')"
  by (simp add: get_cloud_coverage_def requests_get_def exn_bind_def split: sum.splits)

lemma upload_data_result_indep:
  "fst (upload_data w up wd s) = fst (upload_data w up wd s')"
  by (simp add: upload_data_def requests_get_def exn_bind_def split: sum.splits)

lemma get_local_data_clock:
  "clock (snd (get_local_data w st s)) = clock s + latency w (ews_base_url st @ ''/get_stations'')"
  by (simp add: get_local_data_def requests_get_def exn_bind_def logger_def split: sum.splits)

lemma get_local_data_trace:
  "\<exists>lg. trace (snd (get_local_data w st s)) =
          trace s @ HttpGet (ews_base_url st @ ''/get_stations'') [] (ews_timeout st) # lg
        \<and> only_logs lg"
  by (simp add: get_local_data_def requests_get_def exn_bind_def logger_def only_logs_def
        requests_def readings_def split: sum.splits)

lemma get_cloud_coverage_clock:
  "clock (snd (get_cloud_coverage w cp s)) = clock s + latency w (ccp_base_url cp)"
  by (simp add: get_cloud_coverage_def requests_get_def exn_bind_def logger_def split: sum.splits)

lemma get_cloud_coverage_trace:
  "\<exists>lg. trace (snd (get_cloud_coverage w cp s)) =
          trace s @ HttpGet (ccp_base_url cp) (cloud_params cp) (ccp_timeout cp) # lg
        \<and> only_logs lg"
  by (simp add: get_cloud_coverage_def requests_get_def exn_bind_def logger_def only_logs_def
        requests_def readings_def split: sum.splits)

lemma upload_data_clock:
  "clock (snd (upload_data w up wd s)) = clock s + latency w (upload_url up)"
  by (simp add: upload_data_def requests_get_def exn_bind_def logger_def split: sum.splits)

lemma upload_data_trace:
  "\<exists>lg. trace (snd (upload_data w up wd s)) =
          trace s @ HttpGet (upload_url up) (upload_params up wd) (wu_timeout up) # lg
        \<and> only_logs lg"
  by (simp add: upload_data_def requests_get_def exn_bind_def logger_def only_logs_def
        requests_def readings_def split: sum.splits)

lemma parse_data_clock: "clock (snd (parse_data raw s)) = clock s"
  by (simp add: parse_data_def logger_def split: sum.splits)

lemma parse_data_trace:
  "\<exists>lg. trace (snd (parse_data raw s)) = trace s @ lg \<and> only_logs lg"
  by (simp add: parse_data_def logger_def only_logs_def
        requests_def readings_def split: sum.splits)

lemma parse_data_result:
  "fst (parse_data raw s) = (case parse_fields raw of Inr p \<Rightarrow> p | Inl e \<Rightarrow> PNone)"
  by (simp add: parse_data_def split: sum.splits)

lemma dict_get_PDict:
  "dict_get (PDict kvs) k d = Inr (case map_of kvs k of Some v \<Rightarrow> v | None \<Rightarrow> d)"
  by (simp add: dict_get_def)

lemma dict_get_Inr_dict: "dict_get obj k d = Inr v \<Longrightarrow> \<exists>kvs. obj = PDict kvs"
  by (cases obj) (simp_all add: dict_get_def)

lemma nested_get_ok:
  "block_ok kvs k1 \<Longrightarrow> \<exists>v. nested_get (PDict kvs) k1 k2 d = Inr v"
  by (cases "map_of kvs k1")
     (auto simp: nested_get_def dict_get_def exn_bind_def block_ok_def split: pyval.splits)

lemma nested_get_bad:
  "\<not> block_ok kvs k1 \<Longrightarrow> nested_get (PDict kvs) k1 k2 d = Inl AttributeError"
  by (cases "map_of kvs k1")
     (auto simp: nested_get_def dict_get_def exn_bind_def block_ok_def split: pyval.splits)

lemma nested_get_not_dict:
  "\<forall>kvs. obj \<noteq> PDict kvs \<Longrightarrow> nested_get obj k1 k2 d = Inl AttributeError"
  by (cases obj) (simp_all add: nested_get_def dict_get_def exn_bind_def)

lemma exn_bind_Inl: "exn_bind (Inl e) f = Inl e"
  by (simp add: exn_bind_def)

lemma exn_bind_Inr: "exn_bind (Inr x) f = f x"
  by (simp add: exn_bind_def)

lemma parse_fields_shape:
  "parse_fields raw = Inr p \<Longrightarrow>
     \<exists>a b c d e f. p = PDict [(''temperature'', a), (''humidity'', b), (''pressure'', c),
                             (''wind_speed'', d), (''wind_direction'', e), (''rainfall'', f)]"
  unfolding parse_fields_def exn_bind_def
  by (auto split: sum.splits)

lemma parse_fields_well_shaped:
  assumes "well_shaped raw"
  shows "\<exists>p. parse_fields raw = Inr p"
proof -
  obtain kvs where raw: "raw = PDict kvs" and ok: "block_ok kvs ''outdoor''"
      "block_ok kvs ''wind''" "block_ok kvs ''rain''"
    using assms by (cases raw) (simp_all add: well_shaped_def)
  obtain a where a: "nested_get (PDict kvs) ''outdoor'' ''temperature'' PNone = Inr a"
    using nested_get_ok [OF ok(1)] by blast
  obtain b where b: "nested_get (PDict kvs) ''outdoor'' ''humidity'' PNone = Inr b"
    using nested_get_ok [OF ok(1)] by blast
  obtain c where c: "dict_get (PDict kvs) ''pressure'' PNone = Inr c"
    by (simp add: dict_get_def)
  obtain d where d: "nested_get (PDict kvs) ''wind'' ''windspeed'' PNone = Inr d"
    using nested_get_ok [OF ok(2)] by blast
  obtain e where e: "nested_get (PDict kvs) ''wind'' ''winddir'' PNone = Inr e"
    using nested_get_ok [OF ok(2)] by blast
  obtain f where f: "nested_get (PDict kvs) ''rain'' ''rainevent'' PNone = Inr f"
    using nested_get_ok [OF ok(3)] by blast
  show ?thesis
    unfolding parse_fields_def raw by (simp only: a b c d e f exn_bind_Inr) blast
qed

lemma parse_fields_ill_shaped:
  assumes "\<not> well_shaped raw"
  shows "parse_fields raw = Inl AttributeError"
proof (cases "\<exists>kvs. raw = PDict kvs")
  case False
  then have "nested_get raw ''outdoor'' ''temperature'' PNone = Inl AttributeError"
    by (simp add: nested_get_not_dict)
  then show ?thesis
    unfolding parse_fields_def by (simp only: exn_bind_Inl)
next
  case True
  then obtain kvs where raw: "raw = PDict kvs" by blast
  have c: "dict_get (PDict kvs) ''pressure'' PNone =
             Inr (case map_of kvs ''pressure'' of Some v \<Rightarrow> v | None \<Rightarrow> PNone)"
    by (simp add: dict_get_def)
  consider "\<not> block_ok kvs ''outdoor''"
    | "block_ok kvs ''outdoor''" "\<not> block_ok kvs ''wind''"
    | "block_ok kvs ''outdoor''" "block_ok kvs ''wind''" "\<not> block_ok kvs ''rain''"
    using assms raw by (auto simp: well_shaped_def)
  then show ?thesis
  proof cases
    case 1
    show ?thesis unfolding parse_fields_def raw
      by (simp only: nested_get_bad [OF 1] exn_bind_Inl)
  next
    case 2
    obtain a where a: "nested_get (PDict kvs) ''outdoor'' ''temperature'' PNone = Inr a"
      using nested_get_ok [OF 2(1)] by blast
    obtain b where b: "nested_get (PDict kvs) ''outdoor'' ''humidity'' PNone = Inr b"
      using nested_get_ok [OF 2(1)] by blast
    show ?thesis unfolding parse_fields_def raw
      by (simp only: a b c nested_get_bad [OF 2(2)] exn_bind_Inl exn_bind_Inr)
  next
    case 3
    obtain a where a: "nested_get (PDict kvs) ''outdoor'' ''temperature'' PNone = Inr a"
      using nested_get_ok [OF 3(1)] by blast
    obtain b where b: "nested_get (PDict kvs) ''outdoor'' ''humidity'' PNone = Inr b"
      using nested_get_ok [OF 3(1)] by blast
    obtain d where d: "nested_get (PDict kvs) ''wind'' ''windspeed'' PNone = Inr d"
      using nested_get_ok [OF 3(2)] by blast
    obtain e where e: "nested_get (PDict kvs) ''wind'' ''winddir'' PNone = Inr e"
      using nested_get_ok [OF 3(2)] by blast
    show ?thesis unfolding parse_fields_def raw
      by (simp only: a b c d e nested_get_bad [OF 3(3)] exn_bind_Inl exn_bind_Inr)
  qed
qed

lemma parse_fields_ok_iff: "(\<exists>p. parse_fields raw = Inr p) \<longleftrightarrow> well_shaped raw"
  using parse_fields_well_shaped parse_fields_ill_shaped by fastforce

lemma requests_Cons_request: "requests (HttpGet u ps tm # evs) = HttpGet u ps tm # requests evs"
  by (simp add: requests_def)

lemma readings_Cons_request: "readings (HttpGet u ps tm # evs) = readings evs"
  by (simp add: readings_def)

lemma clock_reads_append:
  "filter is_clock_read (xs @ ys) = filter is_clock_read xs @ filter is_clock_read ys"
  by simp

lemma only_logs_append: "only_logs xs \<Longrightarrow> only_logs ys \<Longrightarrow> only_logs (xs @ ys)"
  by (simp add: only_logs_def requests_def readings_def)

lemma only_logs_plain_log: "reading_of (Log lvl msg arg) = [] \<Longrightarrow> only_logs [Log lvl msg arg]"
  by (simp add: only_logs_def requests_def readings_def)

lemma events_since_append: "trace s' = trace s @ evs \<Longrightarrow> events_since s s' = evs"
  by (simp add: events_since_def)

lemma combine_parsed:
  "combine w (PDict [(''temperature'', a), (''humidity'', b), (''pressure'', c),
                     (''wind_speed'', d), (''wind_direction'', e), (''rainfall'', f)]) cc s =
     (Inr \<lparr>temperature = a, humidity = b, pressure = c, wind_speed = d, wind_direction = e,
           rainfall = f, cloud_coverage = cc, timestamp = utc_of w (clock s)\<rparr>,
      s\<lparr>trace := trace s @ [UtcNow (clock s)]\<rparr>)"
  by (simp add: combine_def dict_get_def exn_bind_def utcnow_def)

lemma cycle_proceeds:
  assumes loc: "fst (get_local_data w (ecowitt self) s) = Inr raw"
    and tr: "truthy raw"
    and pf: "parse_fields raw =
       Inr (PDict [(''temperature'', a), (''humidity'', b), (''pressure'', c),
                   (''wind_speed'', d), (''wind_direction'', e), (''rainfall'', f)])"
    and cl: "fst (get_cloud_coverage w (cloud_provider self) s) = Inr cc"
  shows "\<exists>pre post t wd.
      events_since s (snd (collect_and_upload w self s)) =
        pre @ UtcNow t # Log INFO ''Combined weather data: '' (DataArg wd) # post \<and>
      wd = \<lparr>temperature = a, humidity = b, pressure = c, wind_speed = d, wind_direction = e,
            rainfall = f, cloud_coverage = (if cc = PNone then PInt 0 else cc),
            timestamp = utc_of w t\<rparr> \<and>
      requests pre = [HttpGet (gateway_url self) [] (ews_timeout (ecowitt self)),
                      HttpGet (ccp_base_url (cloud_provider self)) (cloud_params (cloud_provider self))
                        (ccp_timeout (cloud_provider self))] \<and>
      readings pre = [] \<and> filter is_clock_read pre = [] \<and>
      requests post = [HttpGet (upload_url (uploader self)) (upload_params (uploader self) wd)
                         (wu_timeout (uploader self))] \<and>
      readings post = [] \<and> filter is_clock_read post = [] \<and>
      clock s \<le> t \<and> t \<le> clock (snd (collect_and_upload w self s)) \<and>
      fst (collect_and_upload w self s) = fst (upload_data w (uploader self) wd s)"
proof -
  let ?p = "PDict [(''temperature'', a), (''humidity'', b), (''pressure'', c),
                   (''wind_speed'', d), (''wind_direction'', e), (''rainfall'', f)]"
  let ?cp = "cloud_provider self"
  let ?up = "uploader self"
  let ?G = "HttpGet (gateway_url self) [] (ews_timeout (ecowitt self))"
  let ?C = "HttpGet (ccp_base_url ?cp) (cloud_params ?cp) (ccp_timeout ?cp)"
  define s1 where "s1 = snd (get_local_data w (ecowitt self) s)"
  define s2 where "s2 = snd (parse_data raw s1)"
  define s3 where "s3 = snd (get_cloud_coverage w ?cp s2)"
  define s4 where "s4 = (if cc = PNone
     then logger WARNING ''Could not get cloud coverage, using 0'' NoArg s3 else s3)"
  define cv where "cv = (if cc = PNone then PInt 0 else cc)"
  define wd where "wd = \<lparr>temperature = a, humidity = b, pressure = c, wind_speed = d,
     wind_direction = e, rainfall = f, cloud_coverage = cv, timestamp = utc_of w (clock s4)\<rparr>"
  define s6 where "s6 = logger INFO ''Combined weather data: '' (DataArg wd)
     (s4\<lparr>trace := trace s4 @ [UtcNow (clock s4)]\<rparr>)"
  define s7 where "s7 = snd (upload_data w ?up wd s6)"
  have e1: "get_local_data w (ecowitt self) s = (Inr raw, s1)"
    using loc by (simp add: s1_def prod_eq_iff)
  have e2: "parse_data raw s1 = (?p, s2)"
    by (simp add: s2_def prod_eq_iff parse_data_result pf)
  have e3: "get_cloud_coverage w ?cp s2 = (Inr cc, s3)"
    using cl get_cloud_coverage_result_indep [of w ?cp s2 s] by (simp add: s3_def prod_eq_iff)
  have e5: "combine w ?p cv s4 = (Inr wd, s4\<lparr>trace := trace s4 @ [UtcNow (clock s4)]\<rparr>)"
    by (simp add: combine_parsed wd_def)
  have run: "collect_and_upload w self s = upload_data w ?up wd s6"
  proof (cases "cc = PNone")
    case True
    then have "s4 = logger WARNING ''Could not get cloud coverage, using 0'' NoArg s3"
        and "cv = PInt 0"
      by (simp_all add: s4_def cv_def)
    with e5 True show ?thesis
      by (simp add: collect_and_upload_def e1 tr e2 e3 s6_def)
  next
    case False
    then have "s4 = s3" and "cv = cc"
      by (simp_all add: s4_def cv_def)
    with e5 False show ?thesis
      by (simp add: collect_and_upload_def e1 tr e2 e3 s6_def)
  qed
  obtain lg1 where t1: "trace s1 = trace s @ ?G # lg1" and l1: "only_logs lg1"
    using get_local_data_trace [of w "ecowitt self" s] by (auto simp: s1_def gateway_url_def)
  obtain lg2 where t2: "trace s2 = trace s1 @ lg2" and l2: "only_logs lg2"
    using parse_data_trace [of raw s1] by (auto simp: s2_def)
  obtain lg3 where t3: "trace s3 = trace s2 @ ?C # lg3" and l3: "only_logs lg3"
    using get_cloud_coverage_trace [of w ?cp s2] by (auto simp: s3_def)
  obtain lg4 where t4: "trace s4 = trace s3 @ lg4" and l4: "only_logs lg4"
    by (cases "cc = PNone")
       (auto simp: s4_def logger_def only_logs_Nil only_logs_plain_log)
  obtain lg7 where t7: "trace s7 = trace s6 @
        HttpGet (upload_url ?up) (upload_params ?up wd) (wu_timeout ?up) # lg7"
      and l7: "only_logs lg7"
    using upload_data_trace [of w ?up wd s6] by (auto simp: s7_def)
  have t6: "trace s6 = trace s4 @ [UtcNow (clock s4), Log INFO ''Combined weather data: '' (DataArg wd)]"
    by (simp add: s6_def logger_def)
  have c1: "clock s1 = clock s + latency w (ews_base_url (ecowitt self) @ ''/get_stations'')"
    by (simp add: s1_def get_local_data_clock)
  have c2: "clock s2 = clock s1" by (simp add: s2_def parse_data_clock)
  have c3: "clock s3 = clock s2 + latency w (ccp_base_url ?cp)"
    by (simp add: s3_def get_cloud_coverage_clock)
  have c4: "clock s4 = clock s3" by (simp add: s4_def logger_def)
  have c6: "clock s6 = clock s4" by (simp add: s6_def logger_def)
  have c7: "clock s7 = clock s6 + latency w (upload_url ?up)"
    by (simp add: s7_def upload_data_clock)
  let ?pre = "?G # lg1 @ lg2 @ ?C # lg3 @ lg4"
  let ?post = "HttpGet (upload_url ?up) (upload_params ?up wd) (wu_timeout ?up) # lg7"
  have ev: "events_since s s7 =
      ?pre @ UtcNow (clock s4) # Log INFO ''Combined weather data: '' (DataArg wd) # ?post"
    by (rule events_since_append) (simp add: t7 t6 t4 t3 t2 t1)
  have q: "requests lg1 = []" "requests lg2 = []" "requests lg3 = []" "requests lg4 = []"
      "requests lg7 = []" "readings lg1 = []" "readings lg2 = []" "readings lg3 = []"
      "readings lg4 = []" "readings lg7 = []"
      "filter is_clock_read lg1 = []" "filter is_clock_read lg2 = []"
      "filter is_clock_read lg3 = []" "filter is_clock_read lg4 = []"
      "filter is_clock_read lg7 = []"
    using l1 l2 l3 l4 l7 by (simp_all add: only_logs_def)
  have rp: "requests ?pre = [?G, ?C]"
    by (simp add: requests_Cons_request requests_append q)
  have dp: "readings ?pre = []"
    by (simp add: readings_Cons_request readings_append q)
  have kp: "filter is_clock_read ?pre = []"
    by (simp add: q)
  have rq: "requests ?post = [HttpGet (upload_url ?up) (upload_params ?up wd) (wu_timeout ?up)]"
    by (simp add: requests_Cons_request q)
  have dq: "readings ?post = []"
    by (simp add: readings_Cons_request q)
  have kq: "filter is_clock_read ?post = []"
    by (simp add: q)
  have snd_run: "snd (collect_and_upload w self s) = s7"
    by (simp add: run s7_def)
  have fst_run: "fst (collect_and_upload w self s) = fst (upload_data w ?up wd s)"
    using upload_data_result_indep [of w ?up wd s6 s] by (simp add: run)
  have lo: "clock s \<le> clock s4" by (simp add: c4 c3 c2 c1)
  have hi: "clock s4 \<le> clock s7" by (simp add: c7 c6)
  have wd_eq: "wd = \<lparr>temperature = a, humidity = b, pressure = c, wind_speed = d,
      wind_direction = e, rainfall = f, cloud_coverage = (if cc = PNone then PInt 0 else cc),
      timestamp = utc_of w (clock s4)\<rparr>"
    by (simp add: wd_def cv_def)
  show ?thesis
    apply (rule exI [of _ ?pre], rule exI [of _ ?post], rule exI [of _ "clock s4"],
        rule exI [of _ wd])
    unfolding snd_run
    using ev wd_eq rp dp kp rq dq kq lo hi fst_run by blast
qed

lemma only_logs_Cons_log:
  "reading_of (Log lvl msg arg) = [] \<Longrightarrow> only_logs evs \<Longrightarrow> only_logs (Log lvl msg arg # evs)"
  by (simp add: only_logs_def requests_def readings_def)

lemma cycle_local_raises:
  assumes loc: "fst (get_local_data w (ecowitt self) s) = Inl e"
  shows "fst (collect_and_upload w self s) = Inl e \<and>
     (\<exists>lg. events_since s (snd (collect_and_upload w self s)) =
        HttpGet (gateway_url self) [] (ews_timeout (ecowitt self)) # lg \<and> only_logs lg)"
proof -
  define s1 where "s1 = snd (get_local_data w (ecowitt self) s)"
  have e1: "get_local_data w (ecowitt self) s = (Inl e, s1)"
    using loc by (simp add: s1_def prod_eq_iff)
  have run: "collect_and_upload w self s = (Inl e, s1)"
    by (simp add: collect_and_upload_def e1)
  obtain lg1 where t1: "trace s1 = trace s @ HttpGet (gateway_url self) [] (ews_timeout (ecowitt self)) # lg1"
      and l1: "only_logs lg1"
    using get_local_data_trace [of w "ecowitt self" s] by (auto simp: s1_def gateway_url_def)
  show ?thesis
    using l1 by (simp add: run events_since_append [OF t1])
qed

lemma cycle_falsy_payload:
  assumes loc: "fst (get_local_data w (ecowitt self) s) = Inr raw" and fl: "\<not> truthy raw"
  shows "collect_and_upload w self s =
       (Inr False, logger ERROR ''Failed to get Ecowitt data'' NoArg
                     (snd (get_local_data w (ecowitt self) s))) \<and>
     (\<exists>lg. events_since s (snd (collect_and_upload w self s)) =
        HttpGet (gateway_url self) [] (ews_timeout (ecowitt self)) # lg @
          [Log ERROR ''Failed to get Ecowitt data'' NoArg] \<and> only_logs lg)"
proof -
  define s1 where "s1 = snd (get_local_data w (ecowitt self) s)"
  have e1: "get_local_data w (ecowitt self) s = (Inr raw, s1)"
    using loc by (simp add: s1_def prod_eq_iff)
  have run: "collect_and_upload w self s =
      (Inr False, logger ERROR ''Failed to get Ecowitt data'' NoArg s1)"
    by (simp add: collect_and_upload_def e1 fl)
  obtain lg1 where t1: "trace s1 = trace s @ HttpGet (gateway_url self) [] (ews_timeout (ecowitt self)) # lg1"
      and l1: "only_logs lg1"
    using get_local_data_trace [of w "ecowitt self" s] by (auto simp: s1_def gateway_url_def)
  have "events_since s (logger ERROR ''Failed to get Ecowitt data'' NoArg s1) =
      HttpGet (gateway_url self) [] (ews_timeout (ecowitt self)) # lg1 @
        [Log ERROR ''Failed to get Ecowitt data'' NoArg]"
    by (rule events_since_append) (simp add: logger_def t1)
  then show ?thesis
    using l1 by (simp add: run s1_def [symmetric])
qed

lemma cycle_parse_failure:
  assumes loc: "fst (get_local_data w (ecowitt self) s) = Inr raw" and tr: "truthy raw"
    and pf: "parse_fields raw = Inl e"
  shows "fst (collect_and_upload w self s) = Inr False \<and>
     (\<exists>lg. events_since s (snd (collect_and_upload w self s)) =
        HttpGet (gateway_url self) [] (ews_timeout (ecowitt self)) # lg @
          [Log ERROR ''Failed to parse Ecowitt data'' NoArg] \<and> only_logs lg)"
proof -
  define s1 where "s1 = snd (get_local_data w (ecowitt self) s)"
  define s2 where "s2 = snd (parse_data raw s1)"
  have e1: "get_local_data w (ecowitt self) s = (Inr raw, s1)"
    using loc by (simp add: s1_def prod_eq_iff)
  have e2: "parse_data raw s1 = (PNone, s2)"
    by (simp add: s2_def prod_eq_iff parse_data_result pf)
  have run: "collect_and_upload w self s =
      (Inr False, logger ERROR ''Failed to parse Ecowitt data'' NoArg s2)"
    by (simp add: collect_and_upload_def e1 tr e2)
  obtain lg1 where t1: "trace s1 = trace s @ HttpGet (gateway_url self) [] (ews_timeout (ecowitt self)) # lg1"
      and l1: "only_logs lg1"
    using get_local_data_trace [of w "ecowitt self" s] by (auto simp: s1_def gateway_url_def)
  obtain lg2 where t2: "trace s2 = trace s1 @ lg2" and l2: "only_logs lg2"
    using parse_data_trace [of raw s1] by (auto simp: s2_def)
  have "events_since s (logger ERROR ''Failed to parse Ecowitt data'' NoArg s2) =
      HttpGet (gateway_url self) [] (ews_timeout (ecowitt self)) # (lg1 @ lg2) @
        [Log ERROR ''Failed to parse Ecowitt data'' NoArg]"
    by (rule events_since_append) (simp add: logger_def t1 t2)
  moreover have "only_logs (lg1 @ lg2)"
    using l1 l2 by (rule only_logs_append)
  ultimately show ?thesis
    unfolding run by (metis fst_conv snd_conv)
qed

lemma cycle_cloud_raises:
  assumes loc: "fst (get_local_data w (ecowitt self) s) = Inr raw" and tr: "truthy raw"
    and pf: "parse_fields raw = Inr p"
    and cl: "fst (get_cloud_coverage w (cloud_provider self) s) = Inl e"
  shows "fst (collect_and_upload w self s) = Inl e \<and>
     (\<exists>lg lg'. events_since s (snd (collect_and_upload w self s)) =
        HttpGet (gateway_url self) [] (ews_timeout (ecowitt self)) # lg @
        HttpGet (ccp_base_url (cloud_provider self)) (cloud_params (cloud_provider self))
          (ccp_timeout (cloud_provider self)) # lg' \<and> only_logs lg \<and> only_logs lg')"
proof -
  let ?cp = "cloud_provider self"
  define s1 where "s1 = snd (get_local_data w (ecowitt self) s)"
  define s2 where "s2 = snd (parse_data raw s1)"
  define s3 where "s3 = snd (get_cloud_coverage w ?cp s2)"
  have tp: "truthy p"
    using parse_fields_shape [OF pf] by auto
  have e1: "get_local_data w (ecowitt self) s = (Inr raw, s1)"
    using loc by (simp add: s1_def prod_eq_iff)
  have e2: "parse_data raw s1 = (p, s2)"
    by (simp add: s2_def prod_eq_iff parse_data_result pf)
  have e3: "get_cloud_coverage w ?cp s2 = (Inl e, s3)"
    using cl get_cloud_coverage_result_indep [of w ?cp s2 s] by (simp add: s3_def prod_eq_iff)
  have run: "collect_and_upload w self s = (Inl e, s3)"
    by (simp add: collect_and_upload_def e1 tr e2 tp e3)
  obtain lg1 where t1: "trace s1 = trace s @ HttpGet (gateway_url self) [] (ews_timeout (ecowitt self)) # lg1"
      and l1: "only_logs lg1"
    using get_local_data_trace [of w "ecowitt self" s] by (auto simp: s1_def gateway_url_def)
  obtain lg2 where t2: "trace s2 = trace s1 @ lg2" and l2: "only_logs lg2"
    using parse_data_trace [of raw s1] by (auto simp: s2_def)
  obtain lg3 where t3: "trace s3 = trace s2 @
       HttpGet (ccp_base_url ?cp) (cloud_params ?cp) (ccp_timeout ?cp) # lg3"
      and l3: "only_logs lg3"
    using get_cloud_coverage_trace [of w ?cp s2] by (auto simp: s3_def)
  have "events_since s s3 =
      HttpGet (gateway_url self) [] (ews_timeout (ecowitt self)) # (lg1 @ lg2) @
      HttpGet (ccp_base_url ?cp) (cloud_params ?cp) (ccp_timeout ?cp) # lg3"
    by (rule events_since_append) (simp add: t1 t2 t3)
  moreover have "only_logs (lg1 @ lg2)"
    using l1 l2 by (rule only_logs_append)
  ultimately show ?thesis
    unfolding run using l3 by (metis fst_conv snd_conv)
qed

lemma readings_request_logs:
  "only_logs lg \<Longrightarrow> readings (HttpGet u ps tm # lg) = []"
  by (simp add: readings_Cons_request only_logs_def)

lemma cycle_reading_inv:
  assumes rd: "readings (events_since s (snd (collect_and_upload w self s))) \<noteq> []"
  shows "\<exists>raw p cc. fst (get_local_data w (ecowitt self) s) = Inr raw \<and> truthy raw \<and>
           parse_fields raw = Inr p \<and>
           fst (get_cloud_coverage w (cloud_provider self) s) = Inr cc"
proof (cases "fst (get_local_data w (ecowitt self) s)")
  case (Inl e)
  from cycle_local_raises [OF Inl] rd show ?thesis
    by (auto simp: readings_request_logs)
next
  case (Inr raw)
  note loc = Inr
  show ?thesis
  proof (cases "truthy raw")
    case False
    from cycle_falsy_payload [OF loc False] obtain lg where
      "events_since s (snd (collect_and_upload w self s)) =
         HttpGet (gateway_url self) [] (ews_timeout (ecowitt self)) # lg @
          [Log ERROR ''Failed to get Ecowitt data'' NoArg]" "only_logs lg"
      by blast
    then have "readings (events_since s (snd (collect_and_upload w self s))) = []"
      by (simp add: readings_Cons_request readings_append only_logs_def) (simp add: readings_def)
    with rd show ?thesis by simp
  next
    case True
    show ?thesis
    proof (cases "parse_fields raw")
      case (Inl e)
      from cycle_parse_failure [OF loc True Inl] obtain lg where
        "events_since s (snd (collect_and_upload w self s)) =
           HttpGet (gateway_url self) [] (ews_timeout (ecowitt self)) # lg @
            [Log ERROR ''Failed to parse Ecowitt data'' NoArg]" "only_logs lg"
        by blast
      then have "readings (events_since s (snd (collect_and_upload w self s))) = []"
        by (simp add: readings_Cons_request readings_append only_logs_def) (simp add: readings_def)
      with rd show ?thesis by simp
    next
      case (Inr p)
      note pf = Inr
      show ?thesis
      proof (cases "fst (get_cloud_coverage w (cloud_provider self) s)")
        case (Inl e)
        from cycle_cloud_raises [OF loc True pf Inl] obtain lg lg' where
          "events_since s (snd (collect_and_upload w self s)) =
            HttpGet (gateway_url self) [] (ews_timeout (ecowitt self)) # lg @
            HttpGet (ccp_base_url (cloud_provider self)) (cloud_params (cloud_provider self))
              (ccp_timeout (cloud_provider self)) # lg'" "only_logs lg" "only_logs lg'"
          by blast
        then have "readings (events_since s (snd (collect_and_upload w self s))) = []"
          by (simp add: readings_Cons_request readings_append only_logs_def)
        with rd show ?thesis by simp
      next
        case (Inr cc)
        with loc True pf show ?thesis by blast
      qed
    qed
  qed
qed

section \<open>Evaluation on concrete inputs\<close>

lemma char_of_bits:
  "char_of (n::nat) = Char (odd n) (odd (n div 2)) (odd (n div 4)) (odd (n div 8))
     (odd (n div 16)) (odd (n div 32)) (odd (n div 64)) (odd (n div 128))"
  by (simp add: char_of_def bit_iff_odd_drop_bit drop_bit_eq_div)

lemmas ex_defs = example_manager_def example_world_def json_reply_def text_reply_def start_def
  WeatherStationManager_init_def EcowittWeatherStation_init_def CloudCoverageProvider_init_def
  WundergroundUploader_init_def digit_def char_of_bits gateway_url_def

lemmas run_defs = collect_and_upload_def get_local_data_def parse_data_def parse_fields_def
  get_cloud_coverage_def combine_def upload_data_def requests_get_def logger_def utcnow_def
  exn_bind_def dict_get_def nested_get_def raise_for_status_def cloud_params_def
  lower_def lower_char_def starts_with_def

lemmas obs_defs = events_since_def requests_def readings_def only_logs_def

section \<open>Properties of the cycle\<close>

subsection \<open>No local data\<close>

text \<open>
  C4. When the local station fetch returns None, the cycle returns False after logging
  "Failed to get Ecowitt data", and the only request of the cycle is the one to the
  gateway: neither the enrichment request nor the upload request is made, and no reading
  is built.
\<close>

theorem no_local_data_skips_cycle:
  assumes "fst (get_local_data w (ecowitt self) s) = Inr PNone"
  shows "fst (collect_and_upload w self s) = Inr False \<and>
         (\<exists>lg. events_since s (snd (collect_and_upload w self s)) =
                 HttpGet (gateway_url self) [] (ews_timeout (ecowitt self)) # lg @
                   [Log ERROR ''Failed to get Ecowitt data'' NoArg] \<and> only_logs lg) \<and>
         requests (events_since s (snd (collect_and_upload w self s))) =
           [HttpGet (gateway_url self) [] (ews_timeout (ecowitt self))] \<and>
         readings (events_since s (snd (collect_and_upload w self s))) = []"
proof -
  have fl: "\<not> truthy PNone" by simp
  from cycle_falsy_payload [OF assms fl] obtain lg where
    run: "collect_and_upload w self s =
       (Inr False, logger ERROR ''Failed to get Ecowitt data'' NoArg
                     (snd (get_local_data w (ecowitt self) s)))"
    and ev: "events_since s (snd (collect_and_upload w self s)) =
        HttpGet (gateway_url self) [] (ews_timeout (ecowitt self)) # lg @
          [Log ERROR ''Failed to get Ecowitt data'' NoArg]"
    and lg: "only_logs lg"
    by blast
  have "requests (HttpGet (gateway_url self) [] (ews_timeout (ecowitt self)) # lg @
          [Log ERROR ''Failed to get Ecowitt data'' NoArg]) =
        [HttpGet (gateway_url self) [] (ews_timeout (ecowitt self))]"
    using lg by (simp add: requests_def only_logs_def)
  moreover have "readings (HttpGet (gateway_url self) [] (ews_timeout (ecowitt self)) # lg @
          [Log ERROR ''Failed to get Ecowitt data'' NoArg]) = []"
    using lg by (simp add: readings_def only_logs_def)
  ultimately show ?thesis
    using ev lg by (simp add: run)
qed

theorem no_local_data_skips_cycle_witness:
  "fst (get_local_data (example_world (Inl ConnectionError) (Inl Timeout) (Inl Timeout))
          (ecowitt example_manager) start) = Inr PNone \<and>
   fst (collect_and_upload (example_world (Inl ConnectionError) (Inl Timeout) (Inl Timeout))
          example_manager start) = Inr False \<and>
   requests (events_since start
      (snd (collect_and_upload (example_world (Inl ConnectionError) (Inl Timeout) (Inl Timeout))
          example_manager start))) =
     [HttpGet ''http://192.168.68.99:8000/get_stations'' [] 10] \<and>
   readings (events_since start
      (snd (collect_and_upload (example_world (Inl ConnectionError) (Inl Timeout) (Inl Timeout))
          example_manager start))) = []"
proof -
  have h: "fst (get_local_data (example_world (Inl ConnectionError) (Inl Timeout) (Inl Timeout))
          (ecowitt example_manager) start) = Inr PNone"
    by (simp add: ex_defs run_defs)
  have g: "gateway_url example_manager = ''http://192.168.68.99:8000/get_stations''"
    "ews_timeout (ecowitt example_manager) = 10"
    by (simp_all add: ex_defs)
  show ?thesis
    using h no_local_data_skips_cycle [OF h] by (simp add: g)
qed

text \<open>
  C10. A gateway payload that is false in Python (an empty object, an empty list, null,
  zero, an empty string) takes the same branch of the cycle as a failed fetch: the cycle
  returns False after the same log record, the gateway request is its only request, and
  no reading is built; a world \<open>w'\<close> whose gateway fetch fails gives the same return
  value, the same requests and the same last log record.
\<close>

theorem falsy_payload_like_unavailable:
  assumes "fst (get_local_data w (ecowitt self) s) = Inr raw_data" and "\<not> truthy raw_data"
    and "fst (get_local_data w' (ecowitt self) s) = Inr PNone"
  shows "fst (collect_and_upload w self s) = Inr False \<and>
         fst (collect_and_upload w' self s) = fst (collect_and_upload w self s) \<and>
         requests (events_since s (snd (collect_and_upload w self s))) =
           [HttpGet (gateway_url self) [] (ews_timeout (ecowitt self))] \<and>
         requests (events_since s (snd (collect_and_upload w' self s))) =
           requests (events_since s (snd (collect_and_upload w self s))) \<and>
         readings (events_since s (snd (collect_and_upload w self s))) = [] \<and>
         last (trace (snd (collect_and_upload w self s))) =
           Log ERROR ''Failed to get Ecowitt data'' NoArg \<and>
         last (trace (snd (collect_and_upload w' self s))) =
           last (trace (snd (collect_and_upload w self s)))"
proof -
  have fl: "\<not> truthy PNone" by simp
  have shape: "fst (collect_and_upload v self s) = Inr False \<and>
      requests (events_since s (snd (collect_and_upload v self s))) =
        [HttpGet (gateway_url self) [] (ews_timeout (ecowitt self))] \<and>
      readings (events_since s (snd (collect_and_upload v self s))) = [] \<and>
      last (trace (snd (collect_and_upload v self s))) =
        Log ERROR ''Failed to get Ecowitt data'' NoArg"
    if loc: "fst (get_local_data v (ecowitt self) s) = Inr r" and f: "\<not> truthy r" for v r
  proof -
    from cycle_falsy_payload [OF loc f] obtain lg where
      run: "collect_and_upload v self s =
         (Inr False, logger ERROR ''Failed to get Ecowitt data'' NoArg
                       (snd (get_local_data v (ecowitt self) s)))"
      and ev: "events_since s (snd (collect_and_upload v self s)) =
          HttpGet (gateway_url self) [] (ews_timeout (ecowitt self)) # lg @
            [Log ERROR ''Failed to get Ecowitt data'' NoArg]"
      and lg: "only_logs lg"
      by blast
    have "requests (HttpGet (gateway_url self) [] (ews_timeout (ecowitt self)) # lg @
            [Log ERROR ''Failed to get Ecowitt data'' NoArg]) =
          [HttpGet (gateway_url self) [] (ews_timeout (ecowitt self))]"
      using lg by (simp add: requests_def only_logs_def)
    moreover have "readings (HttpGet (gateway_url self) [] (ews_timeout (ecowitt self)) # lg @
            [Log ERROR ''Failed to get Ecowitt data'' NoArg]) = []"
      using lg by (simp add: readings_def only_logs_def)
    moreover have "last (trace (snd (collect_and_upload v self s))) =
        Log ERROR ''Failed to get Ecowitt data'' NoArg"
      by (simp add: run logger_def)
    ultimately show ?thesis
      using ev by (simp add: run)
  qed
  from shape [OF assms(1) assms(2)] shape [OF assms(3) fl] show ?thesis
    by simp
qed

theorem falsy_payload_like_unavailable_witness:
  "fst (get_local_data (example_world (json_reply 200 (PDict [])) (Inl Timeout) (Inl Timeout))
          (ecowitt example_manager) start) = Inr (PDict []) \<and> \<not> truthy (PDict []) \<and>
   fst (get_local_data (example_world (Inl ConnectionError) (Inl Timeout) (Inl Timeout))
          (ecowitt example_manager) start) = Inr PNone \<and>
   fst (collect_and_upload (example_world (json_reply 200 (PDict [])) (Inl Timeout) (Inl Timeout))
          example_manager start) = Inr False \<and>
   fst (collect_and_upload (example_world (Inl ConnectionError) (Inl Timeout) (Inl Timeout))
          example_manager start) = Inr False \<and>
   requests (events_since start
      (snd (collect_and_upload (example_world (json_reply 200 (PDict [])) (Inl Timeout) (Inl Timeout))
          example_manager start))) =
     [HttpGet ''http://192.168.68.99:8000/get_stations'' [] 10]"
proof -
  have h1: "fst (get_local_data (example_world (json_reply 200 (PDict [])) (Inl Timeout) (Inl Timeout))
          (ecowitt example_manager) start) = Inr (PDict [])"
    by (simp add: ex_defs run_defs)
  have h2: "\<not> truthy (PDict [])" by simp
  have h3: "fst (get_local_data (example_world (Inl ConnectionError) (Inl Timeout) (Inl Timeout))
          (ecowitt example_manager) start) = Inr PNone"
    by (simp add: ex_defs run_defs)
  have g: "gateway_url example_manager = ''http://192.168.68.99:8000/get_stations''"
    "ews_timeout (ecowitt example_manager) = 10"
    by (simp_all add: ex_defs)
  show ?thesis
    using h1 h2 h3 falsy_payload_like_unavailable [OF h1 h2 h3] by (simp add: g)
qed

subsection \<open>A cycle that builds a reading\<close>

lemma cycle_single_reading:
  assumes rd: "wd \<in> set (readings (events_since s (snd (collect_and_upload w self s))))"
  shows "\<exists>raw cc pre post t.
      fst (get_local_data w (ecowitt self) s) = Inr raw \<and> truthy raw \<and>
      fst (get_cloud_coverage w (cloud_provider self) s) = Inr cc \<and>
      parse_fields raw =
        Inr (PDict [(''temperature'', temperature wd), (''humidity'', humidity wd),
                    (''pressure'', pressure wd), (''wind_speed'', wind_speed wd),
                    (''wind_direction'', wind_direction wd), (''rainfall'', rainfall wd)]) \<and>
      cloud_coverage wd = (if cc = PNone then PInt 0 else cc) \<and>
      timestamp wd = utc_of w t \<and>
      events_since s (snd (collect_and_upload w self s)) =
        pre @ UtcNow t # Log INFO ''Combined weather data: '' (DataArg wd) # post \<and>
      requests pre = [HttpGet (gateway_url self) [] (ews_timeout (ecowitt self)),
                      HttpGet (ccp_base_url (cloud_provider self)) (cloud_params (cloud_provider self))
                        (ccp_timeout (cloud_provider self))] \<and>
      readings pre = [] \<and> filter is_clock_read pre = [] \<and>
      requests post = [HttpGet (upload_url (uploader self)) (upload_params (uploader self) wd)
                         (wu_timeout (uploader self))] \<and>
      readings post = [] \<and> filter is_clock_read post = [] \<and>
      clock s \<le> t \<and> t \<le> clock (snd (collect_and_upload w self s))"
proof -
  from rd have "readings (events_since s (snd (collect_and_upload w self s))) \<noteq> []"
    by auto
  from cycle_reading_inv [OF this] obtain raw p cc where
    loc: "fst (get_local_data w (ecowitt self) s) = Inr raw" and tr: "truthy raw"
    and pf: "parse_fields raw = Inr p"
    and cl: "fst (get_cloud_coverage w (cloud_provider self) s) = Inr cc"
    by blast
  from parse_fields_shape [OF pf] obtain a b c d e f where
    p: "p = PDict [(''temperature'', a), (''humidity'', b), (''pressure'', c),
                   (''wind_speed'', d), (''wind_direction'', e), (''rainfall'', f)]"
    by blast
  from cycle_proceeds [OF loc tr pf [unfolded p] cl] obtain pre post t wd' where
    ev: "events_since s (snd (collect_and_upload w self s)) =
        pre @ UtcNow t # Log INFO ''Combined weather data: '' (DataArg wd') # post"
    and wd': "wd' = \<lparr>temperature = a, humidity = b, pressure = c, wind_speed = d,
        wind_direction = e, rainfall = f,
        cloud_coverage = (if cc = PNone then PInt 0 else cc), timestamp = utc_of w t\<rparr>"
    and rest: "requests pre = [HttpGet (gateway_url self) [] (ews_timeout (ecowitt self)),
                      HttpGet (ccp_base_url (cloud_provider self)) (cloud_params (cloud_provider self))
                        (ccp_timeout (cloud_provider self))]"
      "readings pre = []" "filter is_clock_read pre = []"
      "requests post = [HttpGet (upload_url (uploader self)) (upload_params (uploader self) wd')
                         (wu_timeout (uploader self))]"
      "readings post = []" "filter is_clock_read post = []"
      "clock s \<le> t" "t \<le> clock (snd (collect_and_upload w self s))"
    by blast
  have "readings (events_since s (snd (collect_and_upload w self s))) = [wd']"
    unfolding ev using rest(2,5) by (simp add: readings_append) (simp add: readings_def)
  with rd have eq: "wd = wd'" by simp
  have fields: "temperature wd = a" "humidity wd = b" "pressure wd = c" "wind_speed wd = d"
      "wind_direction wd = e" "rainfall wd = f"
      "cloud_coverage wd = (if cc = PNone then PInt 0 else cc)" "timestamp wd = utc_of w t"
    by (simp_all add: eq wd')
  have pf': "parse_fields raw =
        Inr (PDict [(''temperature'', temperature wd), (''humidity'', humidity wd),
                    (''pressure'', pressure wd), (''wind_speed'', wind_speed wd),
                    (''wind_direction'', wind_direction wd), (''rainfall'', rainfall wd)])"
    using pf p fields by simp
  have ev': "events_since s (snd (collect_and_upload w self s)) =
        pre @ UtcNow t # Log INFO ''Combined weather data: '' (DataArg wd) # post"
    using ev eq by simp
  have up': "requests post = [HttpGet (upload_url (uploader self)) (upload_params (uploader self) wd)
                         (wu_timeout (uploader self))]"
    using rest(4) eq by simp
  show ?thesis
    using loc tr cl pf' fields(7,8) ev' rest(1,2,3) up' rest(5,6,7,8) by blast
qed


lemma get_cloud_coverage_exact:
  "fst (get_cloud_coverage w cp s) =
     (case respond w (ccp_base_url cp) (cloud_params cp) of
        Inl e \<Rightarrow> if is_RequestException e then Inr PNone else Inl e
      | Inr resp \<Rightarrow>
          if 400 \<le> status_code resp \<and> status_code resp < 600 then Inr PNone
          else (case body_json resp of
                  Inl e \<Rightarrow> if is_RequestException e then Inr PNone else Inl e
                | Inr data \<Rightarrow>
                    (case nested_get data ''clouds'' ''all'' (PInt 0) of
                       Inl e \<Rightarrow> if is_RequestException e then Inr PNone else Inl e
                     | Inr v \<Rightarrow> Inr v)))"
  by (simp add: get_cloud_coverage_def requests_get_def exn_bind_def raise_for_status_def
        split: sum.splits)

lemma get_cloud_coverage_value:
  assumes "fst (get_cloud_coverage w cp s) = Inr cc"
  shows "cc = PNone \<or>
     (\<exists>resp data. respond w (ccp_base_url cp) (cloud_params cp) = Inr resp \<and>
        body_json resp = Inr data \<and> nested_get data ''clouds'' ''all'' (PInt 0) = Inr cc)"
  using assms
  by (auto simp: get_cloud_coverage_def requests_get_def exn_bind_def
        split: sum.splits if_splits)

lemma requests_cycle_events:
  "requests (pre @ UtcNow t # Log lvl msg arg # post) = requests pre @ requests post"
  by (simp add: requests_def)

lemma readings_cycle_events:
  "readings (pre @ UtcNow t # Log lvl msg (DataArg wd) # post) =
     readings pre @ wd # readings post"
  by (simp add: readings_def)

lemma clock_reads_cycle_events:
  "filter is_clock_read (pre @ UtcNow t # Log lvl msg arg # post) =
     filter is_clock_read pre @ UtcNow t # filter is_clock_read post"
  by simp

text \<open>
  C5. When the local fetch gives a true payload, \<^verbatim>\<open>parse_data\<close> gives a true result and the
  enrichment fetch returns None, the cycle builds exactly one reading, with cloud coverage
  0, and makes the upload request with that reading's parameters (\<^verbatim>\<open>clouds\<close> is 0) after
  the gateway and the enrichment requests.
\<close>

theorem enrichment_unavailable_still_uploads:
  assumes "fst (get_local_data w (ecowitt self) s) = Inr raw_data" and "truthy raw_data"
    and "truthy (fst (parse_data raw_data s))"
    and "fst (get_cloud_coverage w (cloud_provider self) s) = Inr PNone"
  shows "\<exists>wd. readings (events_since s (snd (collect_and_upload w self s))) = [wd] \<and>
           cloud_coverage wd = PInt 0 \<and>
           requests (events_since s (snd (collect_and_upload w self s))) =
             [HttpGet (gateway_url self) [] (ews_timeout (ecowitt self)),
              HttpGet (ccp_base_url (cloud_provider self)) (cloud_params (cloud_provider self))
                (ccp_timeout (cloud_provider self)),
              HttpGet (upload_url (uploader self)) (upload_params (uploader self) wd)
                (wu_timeout (uploader self))] \<and>
           map_of (upload_params (uploader self) wd) ''clouds'' = Some (PInt 0)"
proof -
  obtain p where pf: "parse_fields raw_data = Inr p"
    using assms(3) by (cases "parse_fields raw_data") (simp_all add: parse_data_result)
  from parse_fields_shape [OF pf] obtain a b c d e f where
    p: "p = PDict [(''temperature'', a), (''humidity'', b), (''pressure'', c),
                   (''wind_speed'', d), (''wind_direction'', e), (''rainfall'', f)]"
    by blast
  from cycle_proceeds [OF assms(1) assms(2) pf [unfolded p] assms(4)]
  obtain pre post t wd where
    ev: "events_since s (snd (collect_and_upload w self s)) =
        pre @ UtcNow t # Log INFO ''Combined weather data: '' (DataArg wd) # post"
    and wd: "wd = \<lparr>temperature = a, humidity = b, pressure = c, wind_speed = d,
        wind_direction = e, rainfall = f,
        cloud_coverage = (if PNone = PNone then PInt 0 else PNone), timestamp = utc_of w t\<rparr>"
    and rest: "requests pre = [HttpGet (gateway_url self) [] (ews_timeout (ecowitt self)),
                      HttpGet (ccp_base_url (cloud_provider self)) (cloud_params (cloud_provider self))
                        (ccp_timeout (cloud_provider self))]"
      "readings pre = []"
      "requests post = [HttpGet (upload_url (uploader self)) (upload_params (uploader self) wd)
                         (wu_timeout (uploader self))]"
      "readings post = []"
    by blast
  have cc: "cloud_coverage wd = PInt 0"
    by (simp add: wd)
  have "readings (events_since s (snd (collect_and_upload w self s))) = [wd]"
    by (simp add: ev readings_cycle_events rest)
  moreover have "requests (events_since s (snd (collect_and_upload w self s))) =
             [HttpGet (gateway_url self) [] (ews_timeout (ecowitt self)),
              HttpGet (ccp_base_url (cloud_provider self)) (cloud_params (cloud_provider self))
                (ccp_timeout (cloud_provider self)),
              HttpGet (upload_url (uploader self)) (upload_params (uploader self) wd)
                (wu_timeout (uploader self))]"
    by (simp add: ev requests_cycle_events rest)
  moreover have "map_of (upload_params (uploader self) wd) ''clouds'' = Some (PInt 0)"
    by (simp add: upload_params_def cc)
  ultimately show ?thesis
    using cc by blast
qed

text \<open>
  C9. In a cycle that builds a reading, the clock is read exactly once; that reading of
  the clock comes after the gateway and the enrichment requests and before the upload
  request, the timestamp is the UTC time of the instant read, and the instant lies
  between the instant the cycle started and the instant it returned. (Time is the clock
  of the state, which every request advances and nothing sets back.)
\<close>

theorem timestamp_assigned_once_at_aggregation:
  assumes "wd \<in> set (readings (events_since s (snd (collect_and_upload w self s))))"
  shows "\<exists>pre post t.
      events_since s (snd (collect_and_upload w self s)) = pre @ UtcNow t # post \<and>
      filter is_clock_read (events_since s (snd (collect_and_upload w self s))) = [UtcNow t] \<and>
      timestamp wd = utc_of w t \<and>
      requests pre = [HttpGet (gateway_url self) [] (ews_timeout (ecowitt self)),
                      HttpGet (ccp_base_url (cloud_provider self)) (cloud_params (cloud_provider self))
                        (ccp_timeout (cloud_provider self))] \<and>
      requests post = [HttpGet (upload_url (uploader self)) (upload_params (uploader self) wd)
                         (wu_timeout (uploader self))] \<and>
      clock s \<le> t \<and> t \<le> clock (snd (collect_and_upload w self s))"
proof -
  from cycle_single_reading [OF assms] obtain pre post t where
    ts: "timestamp wd = utc_of w t"
    and ev: "events_since s (snd (collect_and_upload w self s)) =
        pre @ UtcNow t # Log INFO ''Combined weather data: '' (DataArg wd) # post"
    and rest: "requests pre = [HttpGet (gateway_url self) [] (ews_timeout (ecowitt self)),
                      HttpGet (ccp_base_url (cloud_provider self)) (cloud_params (cloud_provider self))
                        (ccp_timeout (cloud_provider self))]"
      "filter is_clock_read pre = []"
      "requests post = [HttpGet (upload_url (uploader self)) (upload_params (uploader self) wd)
                         (wu_timeout (uploader self))]"
      "filter is_clock_read post = []"
      "clock s \<le> t" "t \<le> clock (snd (collect_and_upload w self s))"
    by blast
  let ?post = "Log INFO ''Combined weather data: '' (DataArg wd) # post"
  have once: "filter is_clock_read (events_since s (snd (collect_and_upload w self s))) = [UtcNow t]"
    by (simp add: ev rest)
  have rq: "requests ?post = [HttpGet (upload_url (uploader self)) (upload_params (uploader self) wd)
                         (wu_timeout (uploader self))]"
    using rest(3) by (simp add: requests_def)
  show ?thesis
    using ev once ts rest(1) rq rest(5,6) by blast
qed

text \<open>
  C8 as amended. The cloud coverage of a reading is the value the enrichment fetch
  returned, with None replaced by 0. Read from the response: it is the value held at
  \<^verbatim>\<open>clouds.all\<close>, passed through unchanged, and it is 0 when the request failed, when the
  status is in 400..599, when the body does not decode, when \<^verbatim>\<open>clouds\<close> or \<^verbatim>\<open>all\<close> is absent,
  or when the value held there is None. It is an integer from 0 to 100 whenever the value
  the API returned is one.
\<close>

theorem cloud_coverage_passthrough:
  assumes "wd \<in> set (readings (events_since s (snd (collect_and_upload w self s))))"
  shows "(\<exists>cc. fst (get_cloud_coverage w (cloud_provider self) s) = Inr cc \<and>
               cloud_coverage wd = (if cc = PNone then PInt 0 else cc)) \<and>
         cloud_coverage wd =
           (case respond w (ccp_base_url (cloud_provider self))
                   (cloud_params (cloud_provider self)) of
              Inl e \<Rightarrow> PInt 0
            | Inr resp \<Rightarrow>
                if 400 \<le> status_code resp \<and> status_code resp < 600 then PInt 0
                else (case body_json resp of
                        Inl e \<Rightarrow> PInt 0
                      | Inr data \<Rightarrow>
                          (case nested_get data ''clouds'' ''all'' (PInt 0) of
                             Inl e \<Rightarrow> PInt 0
                           | Inr v \<Rightarrow> if v = PNone then PInt 0 else v))) \<and>
         ((\<forall>resp data v.
              respond w (ccp_base_url (cloud_provider self)) (cloud_params (cloud_provider self)) =
                Inr resp \<longrightarrow>
              body_json resp = Inr data \<longrightarrow>
              nested_get data ''clouds'' ''all'' (PInt 0) = Inr v \<longrightarrow> in_percent_range v) \<longrightarrow>
          in_percent_range (cloud_coverage wd))"
proof -
  from cycle_single_reading [OF assms] obtain cc where
    cl: "fst (get_cloud_coverage w (cloud_provider self) s) = Inr cc"
    and cv: "cloud_coverage wd = (if cc = PNone then PInt 0 else cc)"
    by blast
  have first: "\<exists>cc. fst (get_cloud_coverage w (cloud_provider self) s) = Inr cc \<and>
               cloud_coverage wd = (if cc = PNone then PInt 0 else cc)"
    using cl cv by blast
  have exact: "cloud_coverage wd =
           (case respond w (ccp_base_url (cloud_provider self))
                   (cloud_params (cloud_provider self)) of
              Inl e \<Rightarrow> PInt 0
            | Inr resp \<Rightarrow>
                if 400 \<le> status_code resp \<and> status_code resp < 600 then PInt 0
                else (case body_json resp of
                        Inl e \<Rightarrow> PInt 0
                      | Inr data \<Rightarrow>
                          (case nested_get data ''clouds'' ''all'' (PInt 0) of
                             Inl e \<Rightarrow> PInt 0
                           | Inr v \<Rightarrow> if v = PNone then PInt 0 else v)))"
    using cl cv unfolding get_cloud_coverage_exact
    by (auto split: sum.splits if_splits)
  have zero: "in_percent_range (PInt 0)"
    by (simp add: in_percent_range_def)
  have range: "(\<forall>resp data v.
              respond w (ccp_base_url (cloud_provider self)) (cloud_params (cloud_provider self)) =
                Inr resp \<longrightarrow>
              body_json resp = Inr data \<longrightarrow>
              nested_get data ''clouds'' ''all'' (PInt 0) = Inr v \<longrightarrow> in_percent_range v) \<longrightarrow>
          in_percent_range (cloud_coverage wd)"
  proof (cases "cc = PNone")
    case True
    with cv zero show ?thesis by simp
  next
    case False
    with cv have eq: "cloud_coverage wd = cc" by simp
    from get_cloud_coverage_value [OF cl] False obtain resp data where
      "respond w (ccp_base_url (cloud_provider self)) (cloud_params (cloud_provider self)) = Inr resp"
      "body_json resp = Inr data" "nested_get data ''clouds'' ''all'' (PInt 0) = Inr cc"
      by blast
    then show ?thesis
      unfolding eq by blast
  qed
  from first exact range show ?thesis
    by blast
qed

text \<open>
  C1, evaluated where it fails. The gateway payload holds the pressure only. The reading
  built has the pressure of the payload, and None (not 0) in the five absent fields: the
  dict \<^verbatim>\<open>parse_data\<close> returns always has the six keys, so the default of
  \<^verbatim>\<open>ecowitt_data.get(key, 0)\<close> is never used.
\<close>

theorem absent_fields_are_none_not_zero:
  "readings (events_since start (snd (collect_and_upload
       (example_world (json_reply 200 (PDict [(''pressure'', PFloat 0x403DEB851EB851EC)]))
          (clouds_reply 25) (text_reply 200 ''success''))
       example_manager start))) =
     [\<lparr>temperature = PNone, humidity = PNone, pressure = PFloat 0x403DEB851EB851EC,
       wind_speed = PNone, wind_direction = PNone, rainfall = PNone,
       cloud_coverage = PInt 25,
       timestamp = \<lparr>year = 2024, month = 1, day = 1, hour = 0, minute = 0, second = 2,
                     microsecond = 0\<rparr>\<rparr>] \<and>
   PNone \<noteq> PInt 0"
  by (simp add: ex_defs run_defs obs_defs clouds_reply_def)


theorem enrichment_unavailable_still_uploads_witness:
  "fst (get_local_data
          (example_world (json_reply 200 station_payload) (Inl Timeout) (text_reply 200 ''success''))
          (ecowitt example_manager) start) = Inr station_payload \<and>
   truthy station_payload \<and>
   truthy (fst (parse_data station_payload start)) \<and>
   fst (get_cloud_coverage
          (example_world (json_reply 200 station_payload) (Inl Timeout) (text_reply 200 ''success''))
          (cloud_provider example_manager) start) = Inr PNone \<and>
   map cloud_coverage (readings (events_since start (snd (collect_and_upload
          (example_world (json_reply 200 station_payload) (Inl Timeout) (text_reply 200 ''success''))
          example_manager start)))) = [PInt 0] \<and>
   map request_url (requests (events_since start (snd (collect_and_upload
          (example_world (json_reply 200 station_payload) (Inl Timeout) (text_reply 200 ''success''))
          example_manager start)))) =
     [''http://192.168.68.99:8000/get_stations'',
      ''https://api.openweathermap.org/data/2.5/weather'',
      ''https://weatherstation.wunderground.com/weatherstation/updateweatherstation.php'']"
proof -
  let ?w = "example_world (json_reply 200 station_payload) (Inl Timeout) (text_reply 200 ''success'')"
  have h1: "fst (get_local_data ?w (ecowitt example_manager) start) = Inr station_payload"
    by (simp add: ex_defs run_defs)
  have h2: "truthy station_payload"
    by (simp add: station_payload_def)
  have h3: "truthy (fst (parse_data station_payload start))"
    by (simp add: station_payload_def run_defs)
  have h4: "fst (get_cloud_coverage ?w (cloud_provider example_manager) start) = Inr PNone"
    by (simp add: ex_defs run_defs)
  have g: "gateway_url example_manager = ''http://192.168.68.99:8000/get_stations''"
    "ccp_base_url (cloud_provider example_manager) =
       ''https://api.openweathermap.org/data/2.5/weather''"
    "upload_url (uploader example_manager) =
       ''https://weatherstation.wunderground.com/weatherstation/updateweatherstation.php''"
    by (simp_all add: ex_defs)
  from enrichment_unavailable_still_uploads [OF h1 h2 h3 h4] obtain wd where
    "readings (events_since start (snd (collect_and_upload ?w example_manager start))) = [wd]"
    "cloud_coverage wd = PInt 0"
    "requests (events_since start (snd (collect_and_upload ?w example_manager start))) =
       [HttpGet (gateway_url example_manager) [] (ews_timeout (ecowitt example_manager)),
        HttpGet (ccp_base_url (cloud_provider example_manager))
          (cloud_params (cloud_provider example_manager))
          (ccp_timeout (cloud_provider example_manager)),
        HttpGet (upload_url (uploader example_manager))
          (upload_params (uploader example_manager) wd)
          (wu_timeout (uploader example_manager))]"
    by blast
  then show ?thesis
    using h1 h2 h3 h4 by (simp add: g)
qed

lemma run_full_payload_readings:
  "readings (events_since start (snd (collect_and_upload
       (example_world (json_reply 200 station_payload) (clouds_reply n) (text_reply 200 ''success''))
       example_manager start))) =
     [\<lparr>temperature = PFloat 0x4052200000000000, humidity = PInt 40,
       pressure = PFloat 0x403DEB851EB851EC, wind_speed = PInt 5, wind_direction = PInt 180,
       rainfall = PFloat 0x3FB999999999999A, cloud_coverage = PInt n,
       timestamp = \<lparr>year = 2024, month = 1, day = 1, hour = 0, minute = 0, second = 2,
                     microsecond = 0\<rparr>\<rparr>]"
  by (simp add: ex_defs run_defs obs_defs clouds_reply_def station_payload_def)

theorem timestamp_assigned_once_at_aggregation_witness:
  "\<lparr>temperature = PFloat 0x4052200000000000, humidity = PInt 40,
     pressure = PFloat 0x403DEB851EB851EC, wind_speed = PInt 5, wind_direction = PInt 180,
     rainfall = PFloat 0x3FB999999999999A, cloud_coverage = PInt 25,
     timestamp = \<lparr>year = 2024, month = 1, day = 1, hour = 0, minute = 0, second = 2,
                   microsecond = 0\<rparr>\<rparr>
     \<in> set (readings (events_since start (snd (collect_and_upload
         (example_world (json_reply 200 station_payload) (clouds_reply 25) (text_reply 200 ''success''))
         example_manager start)))) \<and>
   (\<exists>t. filter is_clock_read (events_since start (snd (collect_and_upload
         (example_world (json_reply 200 station_payload) (clouds_reply 25) (text_reply 200 ''success''))
         example_manager start))) = [UtcNow t] \<and>
        clock start \<le> t \<and>
        t \<le> clock (snd (collect_and_upload
         (example_world (json_reply 200 station_payload) (clouds_reply 25) (text_reply 200 ''success''))
         example_manager start)))"
proof -
  let ?w = "example_world (json_reply 200 station_payload) (clouds_reply 25) (text_reply 200 ''success'')"
  let ?wd = "\<lparr>temperature = PFloat 0x4052200000000000, humidity = PInt 40,
     pressure = PFloat 0x403DEB851EB851EC, wind_speed = PInt 5, wind_direction = PInt 180,
     rainfall = PFloat 0x3FB999999999999A, cloud_coverage = PInt 25,
     timestamp = \<lparr>year = 2024, month = 1, day = 1, hour = 0, minute = 0, second = 2,
                   microsecond = 0\<rparr>\<rparr>"
  have h: "?wd \<in> set (readings (events_since start (snd (collect_and_upload ?w example_manager start))))"
    by (simp add: run_full_payload_readings)
  from timestamp_assigned_once_at_aggregation [OF h] show ?thesis
    using h by blast
qed

text \<open>
  C8 as stated fails: the enrichment API answers 150 and the reading holds 150.
\<close>

theorem cloud_coverage_out_of_range_counterexample:
  "map cloud_coverage (readings (events_since start (snd (collect_and_upload
       (example_world (json_reply 200 station_payload) (clouds_reply 150) (text_reply 200 ''success''))
       example_manager start)))) = [PInt 150] \<and>
   \<not> in_percent_range (PInt 150)"
  by (simp add: run_full_payload_readings in_percent_range_def)

theorem cloud_coverage_passthrough_witness:
  "\<lparr>temperature = PFloat 0x4052200000000000, humidity = PInt 40,
     pressure = PFloat 0x403DEB851EB851EC, wind_speed = PInt 5, wind_direction = PInt 180,
     rainfall = PFloat 0x3FB999999999999A, cloud_coverage = PInt 25,
     timestamp = \<lparr>year = 2024, month = 1, day = 1, hour = 0, minute = 0, second = 2,
                   microsecond = 0\<rparr>\<rparr>
     \<in> set (readings (events_since start (snd (collect_and_upload
         (example_world (json_reply 200 station_payload) (clouds_reply 25) (text_reply 200 ''success''))
         example_manager start)))) \<and>
   fst (get_cloud_coverage
          (example_world (json_reply 200 station_payload) (clouds_reply 25) (text_reply 200 ''success''))
          (cloud_provider example_manager) start) = Inr (PInt 25) \<and>
   in_percent_range (PInt 25)"
proof -
  let ?w = "example_world (json_reply 200 station_payload) (clouds_reply 25) (text_reply 200 ''success'')"
  let ?wd = "\<lparr>temperature = PFloat 0x4052200000000000, humidity = PInt 40,
     pressure = PFloat 0x403DEB851EB851EC, wind_speed = PInt 5, wind_direction = PInt 180,
     rainfall = PFloat 0x3FB999999999999A, cloud_coverage = PInt 25,
     timestamp = \<lparr>year = 2024, month = 1, day = 1, hour = 0, minute = 0, second = 2,
                   microsecond = 0\<rparr>\<rparr>"
  have h: "?wd \<in> set (readings (events_since start (snd (collect_and_upload ?w example_manager start))))"
    by (simp add: run_full_payload_readings)
  have contract: "\<forall>resp data v.
      respond ?w (ccp_base_url (cloud_provider example_manager))
        (cloud_params (cloud_provider example_manager)) = Inr resp \<longrightarrow>
      body_json resp = Inr data \<longrightarrow>
      nested_get data ''clouds'' ''all'' (PInt 0) = Inr v \<longrightarrow> in_percent_range v"
    by (auto simp: ex_defs clouds_reply_def nested_get_def dict_get_def exn_bind_def
          in_percent_range_def)
  note pass = cloud_coverage_passthrough [OF h]
  from pass obtain cc where
    cl: "fst (get_cloud_coverage ?w (cloud_provider example_manager) start) = Inr cc"
    and cv: "cloud_coverage ?wd = (if cc = PNone then PInt 0 else cc)"
    by blast
  from cv have "cc = PInt 25"
    by (simp split: if_splits)
  with cl have fetched: "fst (get_cloud_coverage ?w (cloud_provider example_manager) start) = Inr (PInt 25)"
    by simp
  from pass contract have "in_percent_range (cloud_coverage ?wd)"
    by blast
  then have "in_percent_range (PInt 25)"
    by simp
  with h fetched show ?thesis
    by blast
qed

text \<open>
  C2 as stated fails: a payload that is a non-empty object holding none of the six fields
  parses to a dict of six None values, which is true in Python, and the cycle goes on to
  the enrichment request, builds a reading and uploads it.
\<close>

theorem all_fields_absent_not_skipped_counterexample:
  "fst (parse_data (PDict [(''stationtype'', PStr ''GW1000'')]) start) =
     PDict [(''temperature'', PNone), (''humidity'', PNone), (''pressure'', PNone),
            (''wind_speed'', PNone), (''wind_direction'', PNone), (''rainfall'', PNone)] \<and>
   fst (collect_and_upload
          (example_world (json_reply 200 (PDict [(''stationtype'', PStr ''GW1000'')]))
             (clouds_reply 25) (text_reply 200 ''success''))
          example_manager start) = Inr True \<and>
   map request_url (requests (events_since start (snd (collect_and_upload
          (example_world (json_reply 200 (PDict [(''stationtype'', PStr ''GW1000'')]))
             (clouds_reply 25) (text_reply 200 ''success''))
          example_manager start)))) =
     [''http://192.168.68.99:8000/get_stations'',
      ''https://api.openweathermap.org/data/2.5/weather'',
      ''https://weatherstation.wunderground.com/weatherstation/updateweatherstation.php''] \<and>
   length (readings (events_since start (snd (collect_and_upload
          (example_world (json_reply 200 (PDict [(''stationtype'', PStr ''GW1000'')]))
             (clouds_reply 25) (text_reply 200 ''success''))
          example_manager start)))) = 1"
  by (simp add: ex_defs run_defs obs_defs clouds_reply_def)

text \<open>
  C2 as amended. For a true payload, \<^verbatim>\<open>parse_data\<close> returns None exactly when the payload
  is not an object or its \<^verbatim>\<open>outdoor\<close>, \<^verbatim>\<open>wind\<close> or \<^verbatim>\<open>rain\<close> entry is present and not an
  object. In that case the cycle returns False after logging "Failed to parse Ecowitt
  data", makes no request after the gateway one and builds no reading. Otherwise the
  cycle is not skipped, whichever of the six fields are present: it goes on to the
  enrichment request.
\<close>

theorem parse_failure_skips_cycle:
  assumes "fst (get_local_data w (ecowitt self) s) = Inr raw_data" and "truthy raw_data"
  shows "(fst (parse_data raw_data s) = PNone \<longleftrightarrow> \<not> well_shaped raw_data) \<and>
         (\<not> well_shaped raw_data \<longrightarrow>
            fst (collect_and_upload w self s) = Inr False \<and>
            last (trace (snd (collect_and_upload w self s))) =
              Log ERROR ''Failed to parse Ecowitt data'' NoArg \<and>
            requests (events_since s (snd (collect_and_upload w self s))) =
              [HttpGet (gateway_url self) [] (ews_timeout (ecowitt self))] \<and>
            readings (events_since s (snd (collect_and_upload w self s))) = []) \<and>
         (well_shaped raw_data \<longrightarrow>
            (\<exists>more. requests (events_since s (snd (collect_and_upload w self s))) =
               HttpGet (gateway_url self) [] (ews_timeout (ecowitt self)) #
               HttpGet (ccp_base_url (cloud_provider self)) (cloud_params (cloud_provider self))
                 (ccp_timeout (cloud_provider self)) # more))"
proof (cases "well_shaped raw_data")
  case False
  then have pf: "parse_fields raw_data = Inl AttributeError"
    by (rule parse_fields_ill_shaped)
  have none: "fst (parse_data raw_data s) = PNone"
    by (simp add: parse_data_result pf)
  from cycle_parse_failure [OF assms pf] obtain lg where
    res: "fst (collect_and_upload w self s) = Inr False"
    and ev: "events_since s (snd (collect_and_upload w self s)) =
        HttpGet (gateway_url self) [] (ews_timeout (ecowitt self)) # lg @
          [Log ERROR ''Failed to parse Ecowitt data'' NoArg]"
    and lg: "only_logs lg"
    by blast
  have rq: "requests (events_since s (snd (collect_and_upload w self s))) =
      [HttpGet (gateway_url self) [] (ews_timeout (ecowitt self))]"
    using lg by (simp add: ev requests_def only_logs_def)
  have rd: "readings (events_since s (snd (collect_and_upload w self s))) = []"
    using lg by (simp add: ev readings_def only_logs_def)
  have dr: "drop (length (trace s)) (trace (snd (collect_and_upload w self s))) =
      HttpGet (gateway_url self) [] (ews_timeout (ecowitt self)) # lg @
          [Log ERROR ''Failed to parse Ecowitt data'' NoArg]"
    using ev by (simp add: events_since_def)
  then have "last (drop (length (trace s)) (trace (snd (collect_and_upload w self s)))) =
      Log ERROR ''Failed to parse Ecowitt data'' NoArg"
    by simp
  moreover have "length (trace s) < length (trace (snd (collect_and_upload w self s)))"
    using dr by (metis drop_all list.distinct(1) not_le_imp_less)
  ultimately have la: "last (trace (snd (collect_and_upload w self s))) =
      Log ERROR ''Failed to parse Ecowitt data'' NoArg"
    by (simp add: last_drop)
  show ?thesis
    using False none res la rq rd by simp
next
  case True
  then obtain p where pf: "parse_fields raw_data = Inr p"
    using parse_fields_well_shaped by blast
  from parse_fields_shape [OF pf] obtain a b c d e f where
    p: "p = PDict [(''temperature'', a), (''humidity'', b), (''pressure'', c),
                   (''wind_speed'', d), (''wind_direction'', e), (''rainfall'', f)]"
    by blast
  have some: "fst (parse_data raw_data s) \<noteq> PNone"
    by (simp add: parse_data_result pf p)
  have "\<exists>more. requests (events_since s (snd (collect_and_upload w self s))) =
               HttpGet (gateway_url self) [] (ews_timeout (ecowitt self)) #
               HttpGet (ccp_base_url (cloud_provider self)) (cloud_params (cloud_provider self))
                 (ccp_timeout (cloud_provider self)) # more"
  proof (cases "fst (get_cloud_coverage w (cloud_provider self) s)")
    case (Inl e)
    from cycle_cloud_raises [OF assms pf Inl] obtain lg lg' where
      ev: "events_since s (snd (collect_and_upload w self s)) =
        HttpGet (gateway_url self) [] (ews_timeout (ecowitt self)) # lg @
        HttpGet (ccp_base_url (cloud_provider self)) (cloud_params (cloud_provider self))
          (ccp_timeout (cloud_provider self)) # lg'"
      and lg: "only_logs lg" "only_logs lg'"
      by blast
    show ?thesis
      using lg by (simp add: ev requests_def only_logs_def)
  next
    case (Inr cc)
    from cycle_proceeds [OF assms pf [unfolded p] Inr] obtain pre post t wd where
      ev: "events_since s (snd (collect_and_upload w self s)) =
          pre @ UtcNow t # Log INFO ''Combined weather data: '' (DataArg wd) # post"
      and rq: "requests pre = [HttpGet (gateway_url self) [] (ews_timeout (ecowitt self)),
                      HttpGet (ccp_base_url (cloud_provider self)) (cloud_params (cloud_provider self))
                        (ccp_timeout (cloud_provider self))]"
      by blast
    show ?thesis
      by (simp add: ev requests_cycle_events rq)
  qed
  then show ?thesis
    using True some by simp
qed

theorem parse_failure_skips_cycle_witness:
  "fst (get_local_data
          (example_world (json_reply 200 (PDict [(''outdoor'', PInt 5)])) (clouds_reply 25)
             (text_reply 200 ''success''))
          (ecowitt example_manager) start) = Inr (PDict [(''outdoor'', PInt 5)]) \<and>
   truthy (PDict [(''outdoor'', PInt 5)]) \<and>
   \<not> well_shaped (PDict [(''outdoor'', PInt 5)]) \<and>
   fst (parse_data (PDict [(''outdoor'', PInt 5)]) start) = PNone \<and>
   fst (collect_and_upload
          (example_world (json_reply 200 (PDict [(''outdoor'', PInt 5)])) (clouds_reply 25)
             (text_reply 200 ''success''))
          example_manager start) = Inr False \<and>
   requests (events_since start (snd (collect_and_upload
          (example_world (json_reply 200 (PDict [(''outdoor'', PInt 5)])) (clouds_reply 25)
             (text_reply 200 ''success''))
          example_manager start))) =
     [HttpGet ''http://192.168.68.99:8000/get_stations'' [] 10] \<and>
   readings (events_since start (snd (collect_and_upload
          (example_world (json_reply 200 (PDict [(''outdoor'', PInt 5)])) (clouds_reply 25)
             (text_reply 200 ''success''))
          example_manager start))) = []"
proof -
  let ?w = "example_world (json_reply 200 (PDict [(''outdoor'', PInt 5)])) (clouds_reply 25)
             (text_reply 200 ''success'')"
  have h1: "fst (get_local_data ?w (ecowitt example_manager) start) =
      Inr (PDict [(''outdoor'', PInt 5)])"
    by (simp add: ex_defs run_defs)
  have h2: "truthy (PDict [(''outdoor'', PInt 5)])"
    by simp
  have h3: "\<not> well_shaped (PDict [(''outdoor'', PInt 5)])"
    by (simp add: well_shaped_def block_ok_def)
  have g: "gateway_url example_manager = ''http://192.168.68.99:8000/get_stations''"
    "ews_timeout (ecowitt example_manager) = 10"
    by (simp_all add: ex_defs)
  show ?thesis
    using h1 h2 h3 parse_failure_skips_cycle [OF h1 h2] by (simp add: g)
qed

text \<open>
  C7 as stated fails for a status that is neither 2xx nor 4xx nor 5xx:
  \<^verbatim>\<open>raise_for_status\<close> does not raise for it, and a 300 reply with a JSON body is returned to
  the caller as data by both fetches.
\<close>

theorem non_2xx_status_returned_as_data_counterexample:
  "fst (get_local_data
          (example_world (json_reply 300 station_payload) (clouds_reply 25) (Inl Timeout))
          (ecowitt example_manager) start) = Inr station_payload \<and>
   station_payload \<noteq> PNone \<and>
   fst (get_cloud_coverage
          (example_world (Inl Timeout) (json_reply 300 (PDict [(''clouds'', PDict [(''all'', PInt 25)])]))
             (Inl Timeout))
          (cloud_provider example_manager) start) = Inr (PInt 25)"
  by (simp add: ex_defs run_defs station_payload_def)

text \<open>
  C7 as amended. When the reply to a fetch is a transport failure (no connection, a
  timeout, a 4xx or 5xx status), the local station fetch and the enrichment fetch each
  return None and raise nothing.
\<close>

theorem fetch_returns_none_on_transport_failure:
  "(transport_failure (respond w (ews_base_url station @ ''/get_stations'') []) \<longrightarrow>
      fst (get_local_data w station s) = Inr PNone) \<and>
   (transport_failure (respond w (ccp_base_url provider) (cloud_params provider)) \<longrightarrow>
      fst (get_cloud_coverage w provider s) = Inr PNone)"
  by (auto simp: transport_failure_def get_local_data_def get_cloud_coverage_def
        requests_get_def exn_bind_def raise_for_status_def split: sum.splits)

theorem fetch_returns_none_on_transport_failure_witness:
  "transport_failure (Inl ConnectionError) \<and>
   transport_failure (text_reply 503 ''Service Unavailable'') \<and>
   fst (get_local_data
          (example_world (Inl ConnectionError) (text_reply 503 ''Service Unavailable'') (Inl Timeout))
          (ecowitt example_manager) start) = Inr PNone \<and>
   fst (get_cloud_coverage
          (example_world (Inl ConnectionError) (text_reply 503 ''Service Unavailable'') (Inl Timeout))
          (cloud_provider example_manager) start) = Inr PNone"
proof -
  let ?w = "example_world (Inl ConnectionError) (text_reply 503 ''Service Unavailable'') (Inl Timeout)"
  have r1: "respond ?w (ews_base_url (ecowitt example_manager) @ ''/get_stations'') [] =
      Inl ConnectionError"
    by (simp add: ex_defs)
  have r2: "respond ?w (ccp_base_url (cloud_provider example_manager))
      (cloud_params (cloud_provider example_manager)) = text_reply 503 ''Service Unavailable''"
    by (simp add: ex_defs)
  have t1: "transport_failure (Inl ConnectionError)"
    by (simp add: transport_failure_def)
  have t2: "transport_failure (text_reply 503 ''Service Unavailable'')"
    by (simp add: transport_failure_def text_reply_def)
  show ?thesis
    using fetch_returns_none_on_transport_failure
      [of ?w "ecowitt example_manager" start "cloud_provider example_manager"]
    by (simp add: r1 r2 t1 t2)
qed

subsection \<open>The upload request and its timestamp\<close>

lemma of_char_digit: "(of_char (digit n) :: nat) = 48 + n mod 10"
proof -
  have "n mod 10 < 10"
    by simp
  then have "48 + n mod 10 < 256"
    by linarith
  then have "(48 + n mod 10) mod 256 = 48 + n mod 10"
    by (rule mod_less)
  then show ?thesis
    by (simp add: digit_def)
qed
lemma is_digit_digit: "is_digit (digit n)"
  by (simp add: is_digit_def of_char_digit)

lemma digits_value_2: "n < 100 \<Longrightarrow> digits_value [digit (n div 10), digit n] = n"
  by (simp add: digits_value_def of_char_digit)

lemma digits_value_4:
  assumes "n < 10000"
  shows "digits_value [digit (n div 1000), digit (n div 100), digit (n div 10), digit n] = n"
proof -
  have c: "n div 1000 mod 10 = n div 1000"
    using assms by simp
  have b: "n div 1000 = n div 100 div 10"
    by (simp add: div_mult2_eq)
  have a: "n div 100 = n div 10 div 10"
    by (simp add: div_mult2_eq)
  have "10 * (10 * (10 * (n div 1000 mod 10) + n div 100 mod 10) + n div 10 mod 10) + n mod 10 =
        10 * (10 * (10 * (n div 100 div 10) + n div 100 mod 10) + n div 10 mod 10) + n mod 10"
    by (subst c) (simp only: b)
  also have "\<dots> = 10 * (10 * (n div 100) + n div 10 mod 10) + n mod 10"
    by (simp only: mult_div_mod_eq)
  also have "\<dots> = 10 * (10 * (n div 10 div 10) + n div 10 mod 10) + n mod 10"
    by (simp only: a)
  also have "\<dots> = 10 * (n div 10) + n mod 10"
    by (simp only: mult_div_mod_eq)
  also have "\<dots> = n"
    by (simp only: mult_div_mod_eq)
  finally show ?thesis
    by (simp add: digits_value_def of_char_digit c)
qed

lemma strftime_chars:
  "strftime d =
     [digit (year d div 1000), digit (year d div 100), digit (year d div 10), digit (year d),
      CHR ''-'', digit (month d div 10), digit (month d),
      CHR ''-'', digit (day d div 10), digit (day d),
      CHR '' '', digit (hour d div 10), digit (hour d),
      CHR '':'', digit (minute d div 10), digit (minute d),
      CHR '':'', digit (second d div 10), digit (second d)]"
  by (simp add: strftime_def pad2_def pad4_def)

lemma strftime_layout:
  "length (strftime d) = 19 \<and>
   strftime d ! 4 = CHR ''-'' \<and> strftime d ! 7 = CHR ''-'' \<and> strftime d ! 10 = CHR '' '' \<and>
   strftime d ! 13 = CHR '':'' \<and> strftime d ! 16 = CHR '':'' \<and>
   list_all is_digit (take 4 (strftime d)) \<and>
   list_all is_digit (take 2 (drop 5 (strftime d))) \<and>
   list_all is_digit (take 2 (drop 8 (strftime d))) \<and>
   list_all is_digit (take 2 (drop 11 (strftime d))) \<and>
   list_all is_digit (take 2 (drop 14 (strftime d))) \<and>
   list_all is_digit (take 2 (drop 17 (strftime d)))"
  unfolding strftime_chars by (simp add: is_digit_digit)

lemma strftime_fields:
  assumes "valid_datetime d"
  shows "digits_value (take 4 (strftime d)) = year d \<and>
     digits_value (take 2 (drop 5 (strftime d))) = month d \<and>
     digits_value (take 2 (drop 8 (strftime d))) = day d \<and>
     digits_value (take 2 (drop 11 (strftime d))) = hour d \<and>
     digits_value (take 2 (drop 14 (strftime d))) = minute d \<and>
     digits_value (take 2 (drop 17 (strftime d))) = second d"
proof -
  have b: "year d < 10000" "month d < 100" "day d < 100" "hour d < 100" "minute d < 100"
      "second d < 100"
    using assms by (simp_all add: valid_datetime_def)
  show ?thesis
    unfolding strftime_chars
    by (simp add: digits_value_4 [OF b(1)] digits_value_2 [OF b(2)] digits_value_2 [OF b(3)]
          digits_value_2 [OF b(4)] digits_value_2 [OF b(5)] digits_value_2 [OF b(6)])
qed

text \<open>
  C6. Whatever the network answers, the one request \<^verbatim>\<open>upload_data\<close> makes goes to the
  upload URL with exactly thirteen parameters, in this order: ID and PASSWORD (the station
  id and key), dateutc, tempf, humidity, baromin, windspeedmph, winddir, rainin and clouds
  (the seven measurements of the reading, unchanged), action = updateraw, realtime = 1 and
  rtfreq = 2880. For a timestamp with a four-digit year, dateutc is the 19 characters
  YYYY-MM-DD HH:MM:SS of the timestamp's fields. (The timestamp is the naive UTC time the
  cycle read with \<^verbatim>\<open>datetime.utcnow()\<close>; \<^verbatim>\<open>upload_data\<close> formats it as it is.)
\<close>

theorem upload_params_exact:
  assumes "valid_datetime (timestamp wd)"
  shows "\<exists>ts.
     requests (events_since s (snd (upload_data w self wd s))) =
       [HttpGet (upload_url self)
          [(''ID'', PStr (station_id self)),
           (''PASSWORD'', PStr (station_key self)),
           (''dateutc'', PStr ts),
           (''tempf'', temperature wd),
           (''humidity'', humidity wd),
           (''baromin'', pressure wd),
           (''windspeedmph'', wind_speed wd),
           (''winddir'', wind_direction wd),
           (''rainin'', rainfall wd),
           (''clouds'', cloud_coverage wd),
           (''action'', PStr ''updateraw''),
           (''realtime'', PInt 1),
           (''rtfreq'', PInt 2880)]
          (wu_timeout self)] \<and>
     length ts = 19 \<and>
     ts ! 4 = CHR ''-'' \<and> ts ! 7 = CHR ''-'' \<and> ts ! 10 = CHR '' '' \<and>
     ts ! 13 = CHR '':'' \<and> ts ! 16 = CHR '':'' \<and>
     list_all is_digit (take 4 ts) \<and>
     list_all is_digit (take 2 (drop 5 ts)) \<and>
     list_all is_digit (take 2 (drop 8 ts)) \<and>
     list_all is_digit (take 2 (drop 11 ts)) \<and>
     list_all is_digit (take 2 (drop 14 ts)) \<and>
     list_all is_digit (take 2 (drop 17 ts)) \<and>
     digits_value (take 4 ts) = year (timestamp wd) \<and>
     digits_value (take 2 (drop 5 ts)) = month (timestamp wd) \<and>
     digits_value (take 2 (drop 8 ts)) = day (timestamp wd) \<and>
     digits_value (take 2 (drop 11 ts)) = hour (timestamp wd) \<and>
     digits_value (take 2 (drop 14 ts)) = minute (timestamp wd) \<and>
     digits_value (take 2 (drop 17 ts)) = second (timestamp wd)"
proof -
  obtain lg where tr: "trace (snd (upload_data w self wd s)) =
      trace s @ HttpGet (upload_url self) (upload_params self wd) (wu_timeout self) # lg"
    and lg: "only_logs lg"
    using upload_data_trace [of w self wd s] by blast
  have "requests (events_since s (snd (upload_data w self wd s))) =
      [HttpGet (upload_url self) (upload_params self wd) (wu_timeout self)]"
    using lg by (simp add: events_since_append [OF tr] requests_Cons_request only_logs_def)
  then have rq: "requests (events_since s (snd (upload_data w self wd s))) =
       [HttpGet (upload_url self)
          [(''ID'', PStr (station_id self)),
           (''PASSWORD'', PStr (station_key self)),
           (''dateutc'', PStr (strftime (timestamp wd))),
           (''tempf'', temperature wd),
           (''humidity'', humidity wd),
           (''baromin'', pressure wd),
           (''windspeedmph'', wind_speed wd),
           (''winddir'', wind_direction wd),
           (''rainin'', rainfall wd),
           (''clouds'', cloud_coverage wd),
           (''action'', PStr ''updateraw''),
           (''realtime'', PInt 1),
           (''rtfreq'', PInt 2880)]
          (wu_timeout self)]"
    by (simp only: upload_params_def)
  show ?thesis
    apply (rule exI [of _ "strftime (timestamp wd)"])
    using rq strftime_layout [of "timestamp wd"] strftime_fields [OF assms]
    by blast
qed

theorem upload_params_exact_witness:
  "valid_datetime (timestamp example_reading) \<and>
   requests (events_since start (snd (upload_data
       (example_world (Inl Timeout) (Inl Timeout) (text_reply 200 ''success''))
       (uploader example_manager) example_reading start))) =
     [HttpGet ''https://weatherstation.wunderground.com/weatherstation/updateweatherstation.php''
        [(''ID'', PStr ''KCOLITTL1240''),
         (''PASSWORD'', PStr ''wu-key''),
         (''dateutc'', PStr ''2024-01-01 00:00:00''),
         (''tempf'', PFloat 0x4052200000000000),
         (''humidity'', PInt 40),
         (''baromin'', PFloat 0x403DEB851EB851EC),
         (''windspeedmph'', PInt 5),
         (''winddir'', PInt 180),
         (''rainin'', PFloat 0x3FB999999999999A),
         (''clouds'', PInt 25),
         (''action'', PStr ''updateraw''),
         (''realtime'', PInt 1),
         (''rtfreq'', PInt 2880)]
        10]"
proof -
  have h: "valid_datetime (timestamp example_reading)"
    by (simp add: valid_datetime_def example_reading_def)
  have ts: "strftime \<lparr>year = 2024, month = 1, day = 1, hour = 0, minute = 0, second = 0,
                         microsecond = 0\<rparr> = ''2024-01-01 00:00:00''"
    by (simp add: strftime_chars digit_def char_of_bits)
  have run: "requests (events_since start (snd (upload_data
       (example_world (Inl Timeout) (Inl Timeout) (text_reply 200 ''success''))
       (uploader example_manager) example_reading start))) =
     [HttpGet ''https://weatherstation.wunderground.com/weatherstation/updateweatherstation.php''
        [(''ID'', PStr ''KCOLITTL1240''),
         (''PASSWORD'', PStr ''wu-key''),
         (''dateutc'', PStr (strftime \<lparr>year = 2024, month = 1, day = 1, hour = 0, minute = 0,
                                         second = 0, microsecond = 0\<rparr>)),
         (''tempf'', PFloat 0x4052200000000000),
         (''humidity'', PInt 40),
         (''baromin'', PFloat 0x403DEB851EB851EC),
         (''windspeedmph'', PInt 5),
         (''winddir'', PInt 180),
         (''rainin'', PFloat 0x3FB999999999999A),
         (''clouds'', PInt 25),
         (''action'', PStr ''updateraw''),
         (''realtime'', PInt 1),
         (''rtfreq'', PInt 2880)]
        10]"
    by (simp add: ex_defs run_defs obs_defs example_reading_def upload_params_def
          del: One_nat_def)
  show ?thesis
    using h upload_params_exact [OF h, of start
      "example_world (Inl Timeout) (Inl Timeout) (text_reply 200 ''success'')"
      "uploader example_manager"]
    by (simp only: run ts simp_thms)
qed

subsection \<open>The success marker and the outcomes of an upload\<close>







end
